theory Spec2Isabelle
  imports Main
begin

section \<open>Values\<close>

text \<open>
  The values that travel through the program are the values of JSON. An object is the
  list of its own properties in enumeration order; the lists that stand for objects of
  the program have distinct keys. A number is
  carried as the text that \<^verbatim>\<open>String(n)\<close> gives for it, which is the only thing the
  program ever observes of a number. A property that is \<^verbatim>\<open>undefined\<close> is
  \<open>None\<close> where a value is looked up, and absent from an object that has been through
  \<^verbatim>\<open>JSON.stringify\<close>. Strings are sequences of code units below 256.
\<close>

datatype json =
    JNull
  | JBool bool
  | JNum string
  | JStr string
  | JArr "json list"
  | JObj "(string \<times> json) list"

text \<open>A segment of the path of a validation issue: a property name or an array index.\<close>

datatype seg = Key string | Idx nat

datatype issue = Issue (path: "seg list") (message: string)

text \<open>
  What a \<^verbatim>\<open>catch\<close> clause receives: an \<^verbatim>\<open>Error\<close> with its name and
  message, or any other value, carried as the text \<^verbatim>\<open>String(value)\<close> gives.
\<close>

datatype thrown = JsError string string | JsValue string

section \<open>The libraries the program calls\<close>

text \<open>
  The program is written against zod, date-fns and the platform (\<^verbatim>\<open>URL\<close>,
  \<^verbatim>\<open>Date.parse\<close>, \<^verbatim>\<open>JSON.parse\<close>). Their code is not part of the
  repository, so what they compute on strings is a parameter of the model:
  \<^item> \<open>url_parse s\<close> is the outcome of zod's \<^verbatim>\<open>url()\<close> check on \<open>s\<close>:
    \<open>None\<close> when the check raises an issue, otherwise the string it passes on;
  \<^item> \<open>date_nan s\<close> is \<^verbatim>\<open>Number.isNaN(Date.parse(s))\<close>;
  \<^item> \<open>iso_format s\<close> is \<^verbatim>\<open>formatISO(parseISO(s))\<close>, \<open>None\<close> when it throws;
  \<^item> \<open>json_parse s\<close> is \<^verbatim>\<open>JSON.parse(s)\<close>, \<open>Inl\<close> the message of the
    \<^verbatim>\<open>SyntaxError\<close> when it throws;
  \<^item> \<open>invalid_type e v\<close>, \<open>invalid_literal e v\<close>, \<open>invalid_url\<close> and
    \<open>invalid_union\<close> are the messages zod words itself: for a value \<open>v\<close> that is not
    of the expected type or not the expected literal \<open>e\<close>, for a failed
    \<^verbatim>\<open>url()\<close> check that was given no message, and for a union none of whose
    options accepts. The last is given the issues of each option: zod reports one issue
    at the path of the union, in its own words or in those of the option that failed a
    check only;
  \<^item> \<open>to_primitive_error\<close> is the message of the \<^verbatim>\<open>TypeError\<close> that
    \<^verbatim>\<open>String(value)\<close> throws for a value that has no primitive;
  \<^item> \<open>record_checks_proto\<close> says whether zod's record gives the value of an own key
    \<^verbatim>\<open>__proto__\<close> to the value schema (zod 3) or passes it by (zod 4); neither
    keeps the key.
\<close>

record lib =
  url_parse :: "string \<Rightarrow> string option"
  date_nan :: "string \<Rightarrow> bool"
  iso_format :: "string \<Rightarrow> string option"
  json_parse :: "string \<Rightarrow> string + json"
  invalid_type :: "string \<Rightarrow> json option \<Rightarrow> string"
  invalid_literal :: "string \<Rightarrow> json option \<Rightarrow> string"
  invalid_url :: string
  invalid_union :: "issue list list \<Rightarrow> string"
  to_primitive_error :: string
  record_checks_proto :: bool

section \<open>JavaScript primitives\<close>

text \<open>
  \<^verbatim>\<open>String.prototype.trim\<close> removes white space and line terminators from both
  ends: below 256 these are TAB, LF, VT, FF, CR, SP and NBSP.
\<close>

definition is_js_space :: "char \<Rightarrow> bool" where
  "is_js_space c \<longleftrightarrow> c \<in> set [CHR 0x09, CHR 0x0A, CHR 0x0B, CHR 0x0C, CHR 0x0D, CHR 0x20, CHR 0xA0]"

definition js_trim :: "string \<Rightarrow> string" where
  "js_trim s = rev (dropWhile is_js_space (rev (dropWhile is_js_space s)))"

text \<open>The class \<^verbatim>\<open>\d\<close> of a regular expression: the ten ASCII digits.\<close>

definition is_digit :: "char \<Rightarrow> bool" where
  "is_digit c \<longleftrightarrow> c \<in> set ''0123456789''"

text \<open>The pattern \<^verbatim>\<open>/^\d{6,15}$/\<close>, which has no flags: the whole string is 6 to 15 digits.\<close>

definition recipient_pattern :: "string \<Rightarrow> bool" where
  "recipient_pattern s \<longleftrightarrow> 6 \<le> length s \<and> length s \<le> 15 \<and> list_all is_digit s"

text \<open>
  \<^verbatim>\<open>value.split(/[\n,]+/)\<close>: the pieces between maximal runs of line feeds and
  commas; a run at either end leaves an empty piece there. \<open>cur\<close> is the piece being
  read and \<open>insep\<close> says that the previous character belonged to a run.
\<close>

definition is_sep :: "char \<Rightarrow> bool" where
  "is_sep c \<longleftrightarrow> c = CHR 0x0A \<or> c = CHR '',''"

fun split_go :: "string \<Rightarrow> bool \<Rightarrow> string \<Rightarrow> string list" where
  "split_go cur insep [] = [cur]"
| "split_go cur insep (c # cs) =
     (if is_sep c then (if insep then split_go cur True cs else cur # split_go [] True cs)
      else split_go (cur @ [c]) False cs)"

definition js_split :: "string \<Rightarrow> string list" where
  "js_split s = split_go [] False s"

text \<open>\<^verbatim>\<open>!value\<close> for a value that is a string or \<^verbatim>\<open>undefined\<close>.\<close>

definition falsy_str :: "string option \<Rightarrow> bool" where
  "falsy_str v \<longleftrightarrow> (case v of None \<Rightarrow> True | Some s \<Rightarrow> s = [])"

text \<open>\<^verbatim>\<open>!value\<close>, \<^verbatim>\<open>typeof value\<close> and \<^verbatim>\<open>Array.isArray(value)\<close> on a JSON value.\<close>

fun js_falsy :: "json \<Rightarrow> bool" where
  "js_falsy JNull = True"
| "js_falsy (JBool b) = (\<not> b)"
| "js_falsy (JNum n) = (n = ''0'' \<or> n = ''NaN'')"
| "js_falsy (JStr s) = (s = [])"
| "js_falsy (JArr xs) = False"
| "js_falsy (JObj kvs) = False"

fun js_typeof :: "json \<Rightarrow> string" where
  "js_typeof JNull = ''object''"
| "js_typeof (JBool b) = ''boolean''"
| "js_typeof (JNum n) = ''number''"
| "js_typeof (JStr s) = ''string''"
| "js_typeof (JArr xs) = ''object''"
| "js_typeof (JObj kvs) = ''object''"

fun is_array :: "json \<Rightarrow> bool" where
  "is_array (JArr xs) = True"
| "is_array v = False"

text \<open>
  \<^verbatim>\<open>String(value)\<close>, \<open>None\<close> when it throws. An array is its elements
  joined by commas, with \<^verbatim>\<open>null\<close> elements empty. An object is
  \<^verbatim>\<open>[object Object]\<close> by the \<^verbatim>\<open>toString\<close> it inherits; an object
  with an own property \<^verbatim>\<open>toString\<close>, which in JSON is never a function, has
  no primitive and the conversion throws, also from inside an array.
\<close>

fun js_String :: "json \<Rightarrow> string option"
  and js_join :: "json list \<Rightarrow> string option"
  and js_element :: "json \<Rightarrow> string option" where
  "js_String JNull = Some ''null''"
| "js_String (JBool b) = Some (if b then ''true'' else ''false'')"
| "js_String (JNum n) = Some n"
| "js_String (JStr s) = Some s"
| "js_String (JArr xs) = js_join xs"
| "js_String (JObj kvs) =
     (if ''toString'' \<in> set (map fst kvs) then None else Some ''[object Object]'')"
| "js_join [] = Some []"
| "js_join [x] = js_element x"
| "js_join (x # y # ys) =
     (case js_element x of
        None \<Rightarrow> None
      | Some a \<Rightarrow> (case js_join (y # ys) of None \<Rightarrow> None | Some b \<Rightarrow> Some (a @ '','' @ b)))"
| "js_element JNull = Some []"
| "js_element (JBool b) = js_String (JBool b)"
| "js_element (JNum n) = js_String (JNum n)"
| "js_element (JStr s) = js_String (JStr s)"
| "js_element (JArr xs) = js_String (JArr xs)"
| "js_element (JObj kvs) = js_String (JObj kvs)"

text \<open>\<^verbatim>\<open>String(error)\<close> and \<^verbatim>\<open>error instanceof Error ? error.message : String(error)\<close>.\<close>

fun thrown_String :: "thrown \<Rightarrow> string" where
  "thrown_String (JsError n m) = (if n = [] then m else if m = [] then n else n @ '': '' @ m)"
| "thrown_String (JsValue s) = s"

fun thrown_message :: "thrown \<Rightarrow> string" where
  "thrown_message (JsError n m) = m"
| "thrown_message (JsValue s) = s"

text \<open>A number in a template literal: its decimal digits.\<close>

definition digit_char :: "nat \<Rightarrow> char" where
  "digit_char d = ''0123456789'' ! (d mod 10)"

function show_nat :: "nat \<Rightarrow> string" where
  "show_nat n = (if n < 10 then [digit_char n] else show_nat (n div 10) @ [digit_char (n mod 10)])"
  by pat_completeness auto
termination
  by (relation "measure id") auto

declare show_nat.simps [simp del]

text \<open>
  Objects under construction, whose properties may be \<^verbatim>\<open>undefined\<close>:
  \<open>obj_set\<close> is a property of an object literal or an assignment \<^verbatim>\<open>acc[key] = v\<close>
  (a key already there keeps its place and takes the new value), \<open>spread\<close> is
  \<^verbatim>\<open>...data\<close>, and \<open>JSON_stringify\<close> is the object that the text
  \<^verbatim>\<open>JSON.stringify(payload)\<close> denotes, where \<^verbatim>\<open>undefined\<close> properties are gone.
\<close>

fun obj_set :: "string \<Rightarrow> 'v \<Rightarrow> (string \<times> 'v) list \<Rightarrow> (string \<times> 'v) list" where
  "obj_set k v [] = [(k, v)]"
| "obj_set k v ((k', v') # kvs) = (if k' = k then (k, v) # kvs else (k', v') # obj_set k v kvs)"

definition spread :: "json option \<Rightarrow> (string \<times> json option) list" where
  "spread data = (case data of Some (JObj kvs) \<Rightarrow> map (\<lambda>(k, v). (k, Some v)) kvs | _ \<Rightarrow> [])"

fun defined_props :: "(string \<times> json option) list \<Rightarrow> (string \<times> json) list" where
  "defined_props [] = []"
| "defined_props ((k, None) # kvs) = defined_props kvs"
| "defined_props ((k, Some v) # kvs) = (k, v) # defined_props kvs"

definition JSON_stringify :: "(string \<times> json option) list \<Rightarrow> json" where
  "JSON_stringify payload = JObj (defined_props payload)"

text \<open>\<^verbatim>\<open>obj[key]\<close> on a JSON value.\<close>

definition obj_get :: "string \<Rightarrow> json \<Rightarrow> json option" where
  "obj_get k v = (case v of JObj kvs \<Rightarrow> map_of kvs k | _ \<Rightarrow> None)"

definition obj_keys :: "json \<Rightarrow> string list" where
  "obj_keys v = (case v of JObj kvs \<Rightarrow> map fst kvs | _ \<Rightarrow> [])"

section \<open>The schema combinators of zod\<close>

text \<open>
  A schema takes the path it sits at and the value found there (\<open>None\<close> for
  \<^verbatim>\<open>undefined\<close>) and gives the issues it raises, in order, with the value it
  passes on. Parsing never stops at the first issue: every field of an object and every
  element of an array is visited.
\<close>

type_synonym schema = "seg list \<Rightarrow> json option \<Rightarrow> issue list \<times> json option"

text \<open>
  The checks chained on \<^verbatim>\<open>z.string()\<close> run in the order written, each on the
  string left by the ones before it: \<^verbatim>\<open>.trim()\<close> rewrites the string,
  \<^verbatim>\<open>.min(n, msg)\<close> and \<^verbatim>\<open>.regex(re, msg)\<close> add an issue,
  \<^verbatim>\<open>.url(msg)\<close> adds an issue or passes on what the library makes of the string.
\<close>

type_synonym scheck = "seg list \<Rightarrow> issue list \<times> string \<Rightarrow> issue list \<times> string"

definition trim_check :: scheck where
  "trim_check p = (\<lambda>(is, s). (is, js_trim s))"

definition min_check :: "nat \<Rightarrow> string \<Rightarrow> scheck" where
  "min_check n m p = (\<lambda>(is, s). (if length s < n then is @ [Issue p m] else is, s))"

definition regex_check :: "(string \<Rightarrow> bool) \<Rightarrow> string \<Rightarrow> scheck" where
  "regex_check re m p = (\<lambda>(is, s). (if re s then is else is @ [Issue p m], s))"

definition url_check :: "lib \<Rightarrow> string option \<Rightarrow> scheck" where
  "url_check L m p = (\<lambda>(is, s).
     (case url_parse L s of
        None \<Rightarrow> (is @ [Issue p (case m of None \<Rightarrow> invalid_url L | Some t \<Rightarrow> t)], s)
      | Some s' \<Rightarrow> (is, s')))"

definition zString :: "lib \<Rightarrow> scheck list \<Rightarrow> schema" where
  "zString L checks p v =
     (case v of
        Some (JStr s) \<Rightarrow>
          (case foldl (\<lambda>acc c. c p acc) ([], s) checks of (is, s') \<Rightarrow> (is, Some (JStr s')))
      | _ \<Rightarrow> ([Issue p (invalid_type L ''string'' v)], None))"

text \<open>
  \<^verbatim>\<open>z.array(element).min(n, msg)\<close>: the issue of a short array, then those of
  the elements, each at its index.
\<close>

fun zArray_items :: "schema \<Rightarrow> seg list \<Rightarrow> nat \<Rightarrow> json list \<Rightarrow> issue list \<times> json list" where
  "zArray_items element p i [] = ([], [])"
| "zArray_items element p i (x # xs) =
     (case element (p @ [Idx i]) (Some x) of (is1, out) \<Rightarrow>
        (case zArray_items element p (Suc i) xs of (is2, outs) \<Rightarrow>
           (is1 @ is2, (case out of None \<Rightarrow> outs | Some y \<Rightarrow> y # outs))))"

definition zArray :: "lib \<Rightarrow> schema \<Rightarrow> nat \<Rightarrow> string \<Rightarrow> schema" where
  "zArray L element n m p v =
     (case v of
        Some (JArr xs) \<Rightarrow>
          (case zArray_items element p 0 xs of (is, outs) \<Rightarrow>
             ((if length xs < n then [Issue p m] else []) @ is, Some (JArr outs)))
      | _ \<Rightarrow> ([Issue p (invalid_type L ''array'' v)], None))"

text \<open>\<^verbatim>\<open>schema.optional()\<close>: \<^verbatim>\<open>undefined\<close> passes, anything else goes to the schema.\<close>

definition zOptional :: "schema \<Rightarrow> schema" where
  "zOptional inner p v = (case v of None \<Rightarrow> ([], None) | Some x \<Rightarrow> inner p v)"

text \<open>
  \<^verbatim>\<open>z.record(z.string(), value)\<close>: an object that is neither \<^verbatim>\<open>null\<close>
  nor an array, every property of which goes to the value schema. An own key
  \<^verbatim>\<open>__proto__\<close> is never part of what the record passes on, and its value goes
  to the value schema or not as the library has it.
\<close>

fun zRecord_entries :: "lib \<Rightarrow> schema \<Rightarrow> seg list \<Rightarrow> (string \<times> json) list \<Rightarrow> issue list \<times> (string \<times> json) list" where
  "zRecord_entries L val p [] = ([], [])"
| "zRecord_entries L val p ((k, x) # kvs) =
     (case zRecord_entries L val p kvs of (is2, outs) \<Rightarrow>
        if k = ''__proto__'' then
          ((if record_checks_proto L then fst (val (p @ [Key k]) (Some x)) else []) @ is2, outs)
        else
          (case val (p @ [Key k]) (Some x) of (is1, out) \<Rightarrow>
             (is1 @ is2, (case out of None \<Rightarrow> outs | Some y \<Rightarrow> (k, y) # outs))))"

definition zRecord :: "lib \<Rightarrow> schema \<Rightarrow> schema" where
  "zRecord L val p v =
     (case v of
        Some (JObj kvs) \<Rightarrow>
          (case zRecord_entries L val p kvs of (is, outs) \<Rightarrow> (is, Some (JObj outs)))
      | _ \<Rightarrow> ([Issue p (invalid_type L ''record'' v)], None))"

text \<open>
  \<^verbatim>\<open>schema.refine(ok, msg)\<close> on a schema without checks: after an issue of the
  schema, which can only be one of type, the refinement is skipped.
\<close>

definition zRefine :: "(json option \<Rightarrow> bool) \<Rightarrow> string \<Rightarrow> schema \<Rightarrow> schema" where
  "zRefine ok m inner p v =
     (case inner p v of (is, out) \<Rightarrow>
        if is \<noteq> [] then (is, out)
        else if ok out then ([], out)
        else ([Issue p m], out))"

text \<open>\<^verbatim>\<open>schema.transform(f)\<close> on a string schema: \<open>f\<close> runs when the schema raised no issue.\<close>

definition zTransform :: "(string \<Rightarrow> json) \<Rightarrow> schema \<Rightarrow> schema" where
  "zTransform f inner p v =
     (case inner p v of (is, out) \<Rightarrow>
        if is \<noteq> [] then (is, None)
        else (case out of Some (JStr s) \<Rightarrow> ([], Some (f s)) | _ \<Rightarrow> ([], out)))"

text \<open>\<^verbatim>\<open>z.literal(s)\<close> for a string and \<^verbatim>\<open>a.or(b)\<close>: the first option that accepts.\<close>

definition zLiteral :: "lib \<Rightarrow> string \<Rightarrow> schema" where
  "zLiteral L s p v =
     (if v = Some (JStr s) then ([], v) else ([Issue p (invalid_literal L s v)], None))"

definition zOr :: "lib \<Rightarrow> schema \<Rightarrow> schema \<Rightarrow> schema" where
  "zOr L a b p v =
     (case a p v of (isa, outa) \<Rightarrow>
        if isa = [] then ([], outa)
        else (case b p v of (isb, outb) \<Rightarrow>
          if isb = [] then ([], outb)
          else ([Issue p (invalid_union L [isa, isb])], None)))"

text \<open>
  \<^verbatim>\<open>z.object(shape)\<close>: the fields of the shape in the order written, each given
  the property of that name; the object passed on has the fields of the shape that are
  defined and nothing else (unknown keys are stripped).
\<close>

fun zObject_fields :: "(string \<times> schema) list \<Rightarrow> seg list \<Rightarrow> (string \<times> json) list \<Rightarrow> issue list \<times> (string \<times> json) list" where
  "zObject_fields [] p kvs = ([], [])"
| "zObject_fields ((k, s) # shape) p kvs =
     (case s (p @ [Key k]) (map_of kvs k) of (is1, out) \<Rightarrow>
        (case zObject_fields shape p kvs of (is2, outs) \<Rightarrow>
           (is1 @ is2, (case out of None \<Rightarrow> outs | Some y \<Rightarrow> (k, y) # outs))))"

definition zObject :: "lib \<Rightarrow> (string \<times> schema) list \<Rightarrow> schema" where
  "zObject L shape p v =
     (case v of
        Some (JObj kvs) \<Rightarrow>
          (case zObject_fields shape p kvs of (is, outs) \<Rightarrow> (is, Some (JObj outs)))
      | _ \<Rightarrow> ([Issue p (invalid_type L ''object'' v)], None))"

text \<open>\<^verbatim>\<open>schema.safeParse(value)\<close>: \<open>Inl\<close> the issues, or \<open>Inr\<close> the data.\<close>

definition safeParse :: "schema \<Rightarrow> json option \<Rightarrow> issue list + json option" where
  "safeParse s v = (case s [] v of (is, out) \<Rightarrow> if is = [] then Inr out else Inl is)"

section \<open>The two schemas\<close>

text \<open>
  The refinement of \<^verbatim>\<open>sendAt\<close>, the same in both:
  \<^verbatim>\<open>!value || !Number.isNaN(Date.parse(value))\<close>. The schema before it passes on
  a string or \<^verbatim>\<open>undefined\<close> only.
\<close>

definition sendAt_ok :: "lib \<Rightarrow> json option \<Rightarrow> bool" where
  "sendAt_ok L v =
     (case v of
        None \<Rightarrow> True
      | Some x \<Rightarrow>
          js_falsy x \<or> (case js_String x of None \<Rightarrow> False | Some s \<Rightarrow> \<not> date_nan L s))"

text \<open>
  The field \<^verbatim>\<open>workflowVars\<close>, written the same in both schemas:
  \<^verbatim>\<open>z.record(z.string(), z.string()).optional()\<close>.
\<close>

definition workflowVars_schema :: "lib \<Rightarrow> schema" where
  "workflowVars_schema L = zOptional (zRecord L (zString L []))"

text \<open>\<^verbatim>\<open>inboundSchema\<close> of the relay endpoint (route.ts).\<close>

definition inbound_shape :: "lib \<Rightarrow> (string \<times> schema) list" where
  "inbound_shape L =
     [(''workflowTag'', zString L [trim_check, min_check 1 ''workflowTag is required'']),
      (''recipients'',
         zArray L
           (zString L [trim_check,
              regex_check recipient_pattern ''Recipients must be numeric in international format''])
           1 ''Provide at least one recipient''),
      (''message'', zString L [trim_check, min_check 1 ''message is required'']),
      (''mediaUrl'', zOptional (zString L [url_check L None])),
      (''workflowVars'', workflowVars_schema L),
      (''sendAt'',
         zRefine (sendAt_ok L) ''sendAt must be a valid ISO 8601 date string''
           (zOptional (zString L [])))]"

definition inboundSchema :: "lib \<Rightarrow> schema" where
  "inboundSchema L = zObject L (inbound_shape L)"

text \<open>
  \<^verbatim>\<open>payloadSchema\<close> of the form. The transform of \<^verbatim>\<open>recipients\<close> splits
  the text, trims the pieces and drops the empty ones.
\<close>

definition split_recipients :: "string \<Rightarrow> json" where
  "split_recipients s = JArr (map JStr (filter (\<lambda>e. e \<noteq> []) (map js_trim (js_split s))))"

definition payload_shape :: "lib \<Rightarrow> (string \<times> schema) list" where
  "payload_shape L =
     [(''workflowTag'', zString L [trim_check, min_check 1 ''Workflow tag is required'']),
      (''recipients'',
         zTransform split_recipients
           (zString L [trim_check, min_check 1 ''At least one recipient is required''])),
      (''message'', zString L [trim_check, min_check 1 ''A message body is required'']),
      (''mediaUrl'',
         zOr L (zOptional (zString L [url_check L (Some ''Must be a valid URL'')])) (zLiteral L [])),
      (''workflowVars'', workflowVars_schema L),
      (''sendAt'',
         zRefine (sendAt_ok L) ''Send at must be a valid ISO date''
           (zOptional (zString L [])))]"

definition payloadSchema :: "lib \<Rightarrow> schema" where
  "payloadSchema L = zObject L (payload_shape L)"

section \<open>The relay endpoint\<close>

text \<open>
  The environment holds the two variables read from \<^verbatim>\<open>process.env\<close>. A request
  is what the handler reads of it: the outcome of \<^verbatim>\<open>request.json()\<close>
  (\<open>Inl\<close> what it throws) and the \<^verbatim>\<open>origin\<close> header. An outbound call is the
  argument of \<^verbatim>\<open>fetch\<close>; its body is the object that the text sent denotes. The
  network is a function from the call to what \<^verbatim>\<open>fetch\<close> does: it rejects, or
  it resolves to a response whose body can then be read as text or as JSON, either of
  which may throw. The clock is the text \<^verbatim>\<open>new Date().toISOString()\<close> gives.
\<close>

record env =
  N8N_WEBHOOK_URL :: "string option"
  N8N_API_KEY :: "string option"

record request =
  req_json :: "thrown + json"
  req_origin :: "string option"

record fetch_call =
  call_url :: string
  call_method :: string
  call_headers :: "(string \<times> string) list"
  call_body :: json

record response =
  resp_status :: nat
  resp_text :: "thrown + string"
  resp_json :: "thrown + json"

datatype fetch_result = Rejected thrown | Resolved response

text \<open>
  What the handler answers (\<^verbatim>\<open>NextResponse.json\<close>: a property that is
  \<^verbatim>\<open>undefined\<close> is \<open>None\<close>), and what it did besides: the outbound calls it
  made and the lines it wrote with \<^verbatim>\<open>console.error\<close>.
\<close>

record reply =
  code :: nat
  msg :: string
  issues :: "string list option"
  n8nResponse :: "json option"

record outcome =
  answer :: reply
  calls :: "fetch_call list"
  logged :: "(string \<times> thrown) list"

text \<open>\<^verbatim>\<open>response.ok\<close>: a status from 200 to 299.\<close>

definition resp_ok :: "response \<Rightarrow> bool" where
  "resp_ok r \<longleftrightarrow> 200 \<le> resp_status r \<and> resp_status r \<le> 299"

definition safeJson :: "response \<Rightarrow> json option" where
  "safeJson r = (case resp_json r of Inl e \<Rightarrow> None | Inr j \<Rightarrow> Some j)"

text \<open>The \<^verbatim>\<open>catch\<close> clause around the outbound call.\<close>

definition call_failed :: "fetch_call \<Rightarrow> thrown \<Rightarrow> outcome" where
  "call_failed c error =
     \<lparr>answer = \<lparr>code = 504, msg = ''Failed to communicate with n8n webhook.'',
                 issues = Some [thrown_message error], n8nResponse = None\<rparr>,
      calls = [c],
      logged = [(''[n8n] webhook call failed'', error)]\<rparr>"

definition not_configured :: outcome where
  "not_configured =
     \<lparr>answer = \<lparr>code = 500,
                 msg = ''N8N_WEBHOOK_URL is not configured. Set it in your Vercel project environment variables.'',
                 issues = None, n8nResponse = None\<rparr>,
      calls = [], logged = []\<rparr>"

text \<open>The payload: \<^verbatim>\<open>{...parsed.data, requestedAt: ..., origin: ...}\<close>.\<close>

definition enrich :: "json option \<Rightarrow> string \<Rightarrow> string option \<Rightarrow> (string \<times> json option) list" where
  "enrich data now origin =
     obj_set ''origin'' (map_option JStr origin)
       (obj_set ''requestedAt'' (Some (JStr now)) (spread data))"

definition outbound_call :: "env \<Rightarrow> string \<Rightarrow> (string \<times> json option) list \<Rightarrow> fetch_call" where
  "outbound_call e url payload =
     \<lparr>call_url = url, call_method = ''POST'',
      call_headers = (''Content-Type'', ''application/json'') #
        (case N8N_API_KEY e of
           None \<Rightarrow> []
         | Some k \<Rightarrow> if k = [] then [] else [(''X-N8N-API-KEY'', k)]),
      call_body = JSON_stringify payload\<rparr>"

definition POST :: "lib \<Rightarrow> env \<Rightarrow> string \<Rightarrow> (fetch_call \<Rightarrow> fetch_result) \<Rightarrow> request \<Rightarrow> outcome" where
  "POST L e now fetch req =
     (case N8N_WEBHOOK_URL e of
        None \<Rightarrow> not_configured
      | Some url \<Rightarrow>
          if url = [] then not_configured
          else
            (case req_json req of
               Inl error \<Rightarrow>
                 \<lparr>answer = \<lparr>code = 400, msg = ''Invalid JSON payload'',
                             issues = Some [thrown_String error], n8nResponse = None\<rparr>,
                  calls = [], logged = []\<rparr>
             | Inr body \<Rightarrow>
                 (case safeParse (inboundSchema L) (Some body) of
                    Inl is \<Rightarrow>
                      \<lparr>answer = \<lparr>code = 422, msg = ''Validation failed'',
                                  issues = Some (map message is), n8nResponse = None\<rparr>,
                       calls = [], logged = []\<rparr>
                  | Inr data \<Rightarrow>
                      (let c = outbound_call e url (enrich data now (req_origin req)) in
                       case fetch c of
                         Rejected error \<Rightarrow> call_failed c error
                       | Resolved r \<Rightarrow>
                           if \<not> resp_ok r then
                             (case resp_text r of
                                Inl error \<Rightarrow> call_failed c error
                              | Inr details \<Rightarrow>
                                  \<lparr>answer = \<lparr>code = 502,
                                              msg = ''n8n responded with status '' @ show_nat (resp_status r),
                                              issues = (if details = [] then None else Some [details]),
                                              n8nResponse = None\<rparr>,
                                   calls = [c], logged = []\<rparr>)
                           else
                             \<lparr>answer = \<lparr>code = 200, msg = ''Workflow dispatched to n8n.'',
                                         issues = None, n8nResponse = safeJson r\<rparr>,
                              calls = [c], logged = []\<rparr>))))"

section \<open>The form\<close>

text \<open>The six fields of the form, all text.\<close>

record form =
  form_workflowTag :: string
  form_recipients :: string
  form_message :: string
  form_mediaUrl :: string
  form_sendAt :: string
  form_workflowVars :: string

definition normalizeDateField :: "lib \<Rightarrow> string \<Rightarrow> string option" where
  "normalizeDateField L v =
     (if v = [] then None
      else (case iso_format L v of Some s \<Rightarrow> Some s | None \<Rightarrow> Some v))"

text \<open>
  \<^verbatim>\<open>tryParseWorkflowVars\<close>: \<open>Inl\<close> the message of the error status, \<open>Inr\<close> the
  value of the ok status, which is \<open>None\<close> for a blank input. The
  \<^verbatim>\<open>reduce\<close> runs \<^verbatim>\<open>acc[key] = String(current)\<close> over the entries:
  \<open>None\<close> when a conversion throws, which the \<^verbatim>\<open>catch\<close> clause turns into
  the error status as it does a throw of \<^verbatim>\<open>JSON.parse\<close>; the assignment to the
  key \<^verbatim>\<open>__proto__\<close> of a plain object, its value a string, sets nothing.
\<close>

fun stringify_values :: "(string \<times> json) list \<Rightarrow> (string \<times> json) list \<Rightarrow> (string \<times> json) list option" where
  "stringify_values acc [] = Some acc"
| "stringify_values acc ((key, current) # entries) =
     (case js_String current of
        None \<Rightarrow> None
      | Some s \<Rightarrow>
          stringify_values (if key = ''__proto__'' then acc else obj_set key (JStr s) acc) entries)"

definition tryParseWorkflowVars :: "lib \<Rightarrow> string \<Rightarrow> string + json option" where
  "tryParseWorkflowVars L input =
     (if js_trim input = [] then Inr None
      else
        (case json_parse L input of
           Inl m \<Rightarrow> Inl (''Invalid workflow variables JSON: '' @ m)
         | Inr parsed \<Rightarrow>
             if js_falsy parsed \<or> js_typeof parsed \<noteq> ''object'' \<or> is_array parsed
             then Inl ''Workflow variables must be a JSON object.''
             else
               (case stringify_values [] (case parsed of JObj kvs \<Rightarrow> kvs | _ \<Rightarrow> []) of
                  None \<Rightarrow> Inl (''Invalid workflow variables JSON: '' @ to_primitive_error L)
                | Some value \<Rightarrow> Inr (Some (JObj value)))))"

text \<open>
  The object \<^verbatim>\<open>handleSubmit\<close> gives to \<^verbatim>\<open>payloadSchema.safeParse\<close>
  (a property that is \<^verbatim>\<open>undefined\<close> reads as an absent one), and what \<^verbatim>\<open>handleSubmit\<close> does up to its request: \<open>Inl\<close> the error state of the
  form (message and issues), or \<open>Inr\<close> the body it posts to the relay endpoint.
\<close>

definition draft :: "form \<Rightarrow> string option \<Rightarrow> json option \<Rightarrow> json" where
  "draft f sendAt vars =
     JObj (defined_props
       [(''workflowTag'', Some (JStr (form_workflowTag f))),
        (''recipients'', Some (JStr (form_recipients f))),
        (''message'', Some (JStr (form_message f))),
        (''mediaUrl'', Some (JStr (form_mediaUrl f))),
        (''sendAt'', map_option JStr sendAt),
        (''workflowVars'', vars)])"

definition handleSubmit :: "lib \<Rightarrow> form \<Rightarrow> (string \<times> string list option) + json" where
  "handleSubmit L f =
     (case tryParseWorkflowVars L (form_workflowVars f) of
        Inl m \<Rightarrow> Inl (m, None)
      | Inr vars \<Rightarrow>
          (case safeParse (payloadSchema L)
                  (Some (draft f (normalizeDateField L (form_sendAt f)) vars)) of
             Inl is \<Rightarrow> Inl (''Fix the highlighted issues.'', Some (map message is))
           | Inr data \<Rightarrow> Inr (JSON_stringify (spread data))))"

text \<open>
  \<^verbatim>\<open>defaultValues\<close>, as the form holds them when it is first shown: the
  variables are the text \<^verbatim>\<open>JSON.stringify(defaultValues.workflowVars, null, 2)\<close>.
\<close>

definition default_vars_text :: string where
  "default_vars_text = ''{\<newline>  \"source\": \"web-portal\"\<newline>}''"

definition defaultValues :: form where
  "defaultValues =
     \<lparr>form_workflowTag = ''whatsapp-broadcast'',
      form_recipients = ''15551234567'',
      form_message = ''Hello from your n8n automation! Replace this text with a personalized message.'',
      form_mediaUrl = [],
      form_sendAt = [],
      form_workflowVars = default_vars_text\<rparr>"

text \<open>
  Two texts for the variables: an object with values of every kind and an own key
  \<^verbatim>\<open>__proto__\<close>, and an object with a value that has no primitive.
\<close>

definition mixed_vars_text :: string where
  "mixed_vars_text = ''{\"a\":1,\"b\":null,\"c\":[1,null,[true]],\"d\":{\"x\":1},\"e\":\"s\",\"__proto__\":\"p\"}''"

definition mixed_vars :: "(string \<times> json) list" where
  "mixed_vars =
     [(''a'', JNum ''1''), (''b'', JNull), (''c'', JArr [JNum ''1'', JNull, JArr [JBool True]]),
      (''d'', JObj [(''x'', JNum ''1'')]), (''e'', JStr ''s''), (''__proto__'', JStr ''p'')]"

definition throwing_vars_text :: string where
  "throwing_vars_text = ''{\"a\":{\"toString\":1}}''"

text \<open>
  A stand-in for the libraries at concrete inputs. It knows one URL and one date, and
  agrees with the libraries on the strings the examples below give it: the empty string
  and \<^verbatim>\<open>not a url\<close> are no URLs, \<^verbatim>\<open>not a date\<close> and a single space
  are no dates.
\<close>

definition sample_lib :: lib where
  "sample_lib =
     \<lparr>url_parse = (\<lambda>s. if s = ''https://example.com/catalog.pdf'' then Some s else None),
      date_nan = (\<lambda>s. s \<noteq> ''2024-01-01T12:00:00.000Z'' \<and> s \<noteq> ''2024-01-01T12:00:00Z''),
      iso_format = (\<lambda>s. if s = ''2024-01-01T12:00:00.000Z'' then Some ''2024-01-01T12:00:00Z'' else None),
      json_parse = (\<lambda>s. if s = default_vars_text then Inr (JObj [(''source'', JStr ''web-portal'')])
                         else if s = mixed_vars_text then Inr (JObj mixed_vars)
                         else if s = throwing_vars_text
                           then Inr (JObj [(''a'', JObj [(''toString'', JNum ''1'')])])
                         else if s = ''[1]'' then Inr (JArr [JNum ''1''])
                         else if s = ''7'' then Inr (JNum ''7'')
                         else Inl ''Unexpected token''),
      invalid_type = (\<lambda>e v. ''Invalid input: expected '' @ e),
      invalid_literal = (\<lambda>e v. ''Invalid input''),
      invalid_url = ''Invalid URL'',
      invalid_union = (\<lambda>iss. ''Invalid input''),
      to_primitive_error = ''Cannot convert object to primitive value'',
      record_checks_proto = False\<rparr>"

text \<open>
  A string, an object (not \<^verbatim>\<open>null\<close>, not an array), and an object all of
  whose values are strings: a \<^verbatim>\<open>Record<string, string>\<close>.
\<close>

fun is_str :: "json \<Rightarrow> bool" where
  "is_str (JStr s) = True"
| "is_str v = False"


fun is_string_record :: "json \<Rightarrow> bool" where
  "is_string_record (JObj kvs) = list_all (\<lambda>(k, x). is_str x) kvs"
| "is_string_record v = False"

text \<open>
  What the server-facing schema is to report, written out field by field. A text field
  has one issue when it is no string or is empty once trimmed. The recipients have the
  issue of an empty array and, for every index in turn, the issue of the element there
  when it is no string or does not match once trimmed. The URL, when there is one, has
  an issue when it is no string or fails the check. The variables, when there are any,
  have one issue when they are no object, and otherwise one for every value that is no
  string, in order, the value of an own key \<^verbatim>\<open>__proto__\<close> counting only when
  the library looks at it. \<^verbatim>\<open>sendAt\<close>, when there is one, has an issue when it is
  no string or is neither empty nor a date.
\<close>

definition text_issues :: "lib \<Rightarrow> string \<Rightarrow> string \<Rightarrow> json option \<Rightarrow> issue list" where
  "text_issues L k m v =
     (case v of
        Some (JStr t) \<Rightarrow> if js_trim t = [] then [Issue [Key k] m] else []
      | _ \<Rightarrow> [Issue [Key k] (invalid_type L ''string'' v)])"

definition recipient_issue :: "lib \<Rightarrow> nat \<Rightarrow> json \<Rightarrow> issue list" where
  "recipient_issue L i x =
     (case x of
        JStr r \<Rightarrow>
          if recipient_pattern (js_trim r) then []
          else [Issue [Key ''recipients'', Idx i] ''Recipients must be numeric in international format'']
      | _ \<Rightarrow> [Issue [Key ''recipients'', Idx i] (invalid_type L ''string'' (Some x))])"

definition recipient_issues :: "lib \<Rightarrow> json option \<Rightarrow> issue list" where
  "recipient_issues L v =
     (case v of
        Some (JArr xs) \<Rightarrow>
          (if xs = [] then [Issue [Key ''recipients''] ''Provide at least one recipient'' ] else [])
          @ concat (map (\<lambda>i. recipient_issue L i (xs ! i)) [0..<length xs])
      | _ \<Rightarrow> [Issue [Key ''recipients''] (invalid_type L ''array'' v)])"

definition url_issues :: "lib \<Rightarrow> json option \<Rightarrow> issue list" where
  "url_issues L v =
     (case v of
        None \<Rightarrow> []
      | Some (JStr u) \<Rightarrow>
          if url_parse L u = None then [Issue [Key ''mediaUrl''] (invalid_url L)] else []
      | _ \<Rightarrow> [Issue [Key ''mediaUrl''] (invalid_type L ''string'' v)])"

definition vars_issues :: "lib \<Rightarrow> json option \<Rightarrow> issue list" where
  "vars_issues L v =
     (case v of
        None \<Rightarrow> []
      | Some (JObj kvs) \<Rightarrow>
          map (\<lambda>(k, x). Issue [Key ''workflowVars'', Key k] (invalid_type L ''string'' (Some x)))
            (filter (\<lambda>(k, x). \<not> is_str x \<and> (k \<noteq> ''__proto__'' \<or> record_checks_proto L)) kvs)
      | _ \<Rightarrow> [Issue [Key ''workflowVars''] (invalid_type L ''record'' v)])"

definition date_issues :: "lib \<Rightarrow> string \<Rightarrow> json option \<Rightarrow> issue list" where
  "date_issues L m v =
     (case v of
        None \<Rightarrow> []
      | Some (JStr s) \<Rightarrow> if s = [] \<or> \<not> date_nan L s then [] else [Issue [Key ''sendAt''] m]
      | _ \<Rightarrow> [Issue [Key ''sendAt''] (invalid_type L ''string'' v)])"

definition inbound_issues :: "lib \<Rightarrow> json \<Rightarrow> issue list" where
  "inbound_issues L body =
     (case body of
        JObj kvs \<Rightarrow>
          text_issues L ''workflowTag'' ''workflowTag is required'' (map_of kvs ''workflowTag'')
          @ recipient_issues L (map_of kvs ''recipients'')
          @ text_issues L ''message'' ''message is required'' (map_of kvs ''message'')
          @ url_issues L (map_of kvs ''mediaUrl'')
          @ vars_issues L (map_of kvs ''workflowVars'')
          @ date_issues L ''sendAt must be a valid ISO 8601 date string'' (map_of kvs ''sendAt'')
      | _ \<Rightarrow> [Issue [] (invalid_type L ''object'' (Some body))])"

text \<open>A value without its own key \<^verbatim>\<open>__proto__\<close>, as a record of zod passes it on.\<close>

definition without_proto :: "json \<Rightarrow> json" where
  "without_proto w = (case w of JObj kvs \<Rightarrow> JObj (filter (\<lambda>(k, x). k \<noteq> ''__proto__'') kvs) | _ \<Rightarrow> w)"

text \<open>
  The number that a decimal numeral stands for; a text that is empty, has another
  character than a digit, or has a leading zero is no numeral.
\<close>

definition read_decimal :: "string \<Rightarrow> nat option" where
  "read_decimal s =
     (if s = [] \<or> \<not> list_all (\<lambda>c. c \<in> set ''0123456789'') s \<or> (hd s = CHR ''0'' \<and> s \<noteq> ''0'')
      then None
      else Some (foldl (\<lambda>n c. 10 * n + (of_char c - 48)) 0 s))"

text \<open>A body with faults in every field, several of them in its recipients and its variables.\<close>

definition body_many_faults :: json where
  "body_many_faults =
     JObj [(''workflowTag'', JStr ''  ''),
           (''recipients'', JArr [JStr ''abc'', JStr ''15551234567'', JStr ''12'', JNum ''7'']),
           (''message'', JNull),
           (''mediaUrl'', JStr []),
           (''workflowVars'', JObj [(''a'', JNum ''1''), (''b'', JStr ''x''), (''c'', JNull)]),
           (''sendAt'', JStr ''not a date'')]"

text \<open>
  The bodies of the scenarios of the specification, a configured environment, and a
  request that carries a body and no \<^verbatim>\<open>origin\<close> header.
\<close>

definition scenario_A :: json where
  "scenario_A =
     JObj [(''workflowTag'', JStr ''promo''), (''recipients'', JArr [JStr ''15551234567'']),
           (''message'', JStr ''hi'')]"

definition scenario_C :: json where
  "scenario_C = JObj [(''workflowTag'', JStr []), (''recipients'', JArr []), (''message'', JStr [])]"

definition sample_url :: string where
  "sample_url = ''https://n8n.example/webhook/whatsapp-relay''"

definition sample_env :: env where
  "sample_env = \<lparr>N8N_WEBHOOK_URL = Some sample_url, N8N_API_KEY = None\<rparr>"

definition sample_now :: string where
  "sample_now = ''2024-01-01T12:00:00.000Z''"

definition request_of :: "json \<Rightarrow> request" where
  "request_of body = \<lparr>req_json = Inr body, req_origin = None\<rparr>"

text \<open>
  The names of the fields of both shapes, the properties of the data of a successful
  parse, and a body that passes the schema and carries, besides the fields of scenario A,
  a \<^verbatim>\<open>requestedAt\<close>, an \<^verbatim>\<open>origin\<close> and an unknown key of the client.
\<close>

definition schema_keys :: "string list" where
  "schema_keys = [''workflowTag'', ''recipients'', ''message'', ''mediaUrl'', ''workflowVars'', ''sendAt'']"

definition data_props :: "json option \<Rightarrow> (string \<times> json) list" where
  "data_props data = (case data of Some (JObj kvs) \<Rightarrow> kvs | _ \<Rightarrow> [])"

definition body_extra :: json where
  "body_extra =
     JObj [(''workflowTag'', JStr ''promo''), (''requestedAt'', JStr ''1999-12-31T00:00:00.000Z''),
           (''recipients'', JArr [JStr ''15551234567'']), (''origin'', JStr ''https://evil.example''),
           (''message'', JStr ''hi''), (''admin'', JBool True)]"

text \<open>
  A schema keeps presence when, raising no issue, it passes on a value exactly when it
  was given one.
\<close>

definition presence :: "schema \<Rightarrow> bool" where
  "presence s \<longleftrightarrow> (\<forall>p v. fst (s p v) = [] \<longrightarrow> (snd (s p v) = None \<longleftrightarrow> v = None))"

text \<open>
  The body the form posts from its default values, with one recipient, and a body that
  passes the schema but for its empty \<^verbatim>\<open>mediaUrl\<close>.
\<close>

definition default_body :: "string \<Rightarrow> json" where
  "default_body recipient =
     JObj [(''workflowTag'', JStr ''whatsapp-broadcast''),
           (''recipients'', JArr [JStr recipient]),
           (''message'', JStr ''Hello from your n8n automation! Replace this text with a personalized message.''),
           (''mediaUrl'', JStr []),
           (''workflowVars'', JObj [(''source'', JStr ''web-portal'')])]"

definition body_empty_media :: json where
  "body_empty_media =
     JObj [(''workflowTag'', JStr ''promo''), (''recipients'', JArr [JStr ''15551234567'']),
           (''message'', JStr ''hi''), (''mediaUrl'', JStr [])]"

text \<open>A property of an object that is there when its value is defined.\<close>

definition optional_prop :: "string \<Rightarrow> json option \<Rightarrow> (string \<times> json) list" where
  "optional_prop k v = (case v of None \<Rightarrow> [] | Some x \<Rightarrow> [(k, x)])"

text \<open>
  Bodies that pass the schema but for one field: variables with a number for a value,
  a given \<^verbatim>\<open>sendAt\<close>. A body and a form with white space around their texts.
\<close>

definition body_vars_number :: json where
  "body_vars_number =
     JObj [(''workflowTag'', JStr ''promo''), (''recipients'', JArr [JStr ''15551234567'']),
           (''message'', JStr ''hi''), (''workflowVars'', JObj [(''a'', JNum ''1'')])]"

definition body_bad_date :: "string \<Rightarrow> json" where
  "body_bad_date sendAt =
     JObj [(''workflowTag'', JStr ''promo''), (''recipients'', JArr [JStr ''15551234567'']),
           (''message'', JStr ''hi''), (''sendAt'', JStr sendAt)]"


definition body_no_recipients :: json where
  "body_no_recipients =
     JObj [(''workflowTag'', JStr ''promo''), (''recipients'', JArr []), (''message'', JStr ''hi'')]"

definition body_bad_url :: json where
  "body_bad_url =
     JObj [(''workflowTag'', JStr ''promo''), (''recipients'', JArr [JStr ''15551234567'']),
           (''message'', JStr ''hi''), (''mediaUrl'', JStr ''not a url'')]"

definition body_spaced :: json where
  "body_spaced =
     JObj [(''workflowTag'', JStr '' promo ''),
           (''recipients'', JArr [JStr '' 15551234567'', JStr ''447700900123 '']),
           (''message'', JStr ''hi ''),
           (''mediaUrl'', JStr ''https://example.com/catalog.pdf''),
           (''workflowVars'', JObj [(''source'', JStr ''web-portal'')]),
           (''sendAt'', JStr ''2024-01-01T12:00:00.000Z'')]"

definition form_spaced :: form where
  "form_spaced =
     \<lparr>form_workflowTag = '' promo '',
      form_recipients = '' 15551234567,,447700900123\<newline>\<newline>4915112345678 ,\<newline>'',
      form_message = ''hi '',
      form_mediaUrl = [],
      form_sendAt = ''2024-01-01T12:00:00.000Z'',
      form_workflowVars = []\<rparr>"

section \<open>Properties of the combinators\<close>

lemmas schema_defs = safeParse_def inboundSchema_def inbound_shape_def zObject_def zString_def
  trim_check_def min_check_def regex_check_def url_check_def zArray_def zOptional_def zRefine_def
  workflowVars_schema_def sendAt_ok_def zRecord_def

lemmas payload_defs = safeParse_def payloadSchema_def payload_shape_def zObject_def zString_def
  trim_check_def min_check_def url_check_def zOptional_def zRefine_def zTransform_def zOr_def
  zLiteral_def workflowVars_schema_def sendAt_ok_def zRecord_def

lemmas eval_defs = js_trim_def is_js_space_def recipient_pattern_def is_digit_def

lemma js_trim_Nil [simp]: "js_trim [] = []"
  by (simp add: js_trim_def)

text \<open>An object schema reports the issues of every field, in the order of the shape.\<close>

lemma zObject_fields_issues:
  "fst (zObject_fields shape p kvs) =
     concat (map (\<lambda>(k, s). fst (s (p @ [Key k]) (map_of kvs k))) shape)"
  by (induction shape) (auto split: prod.splits option.splits)

lemma scenario_C_issues:
  "safeParse (inboundSchema L) (Some scenario_C) =
     Inl [Issue [Key ''workflowTag''] ''workflowTag is required'',
          Issue [Key ''recipients''] ''Provide at least one recipient'',
          Issue [Key ''message''] ''message is required'']"
  by (simp add: schema_defs scenario_C_def)

lemma scenario_A_data:
  "safeParse (inboundSchema L) (Some scenario_A) = Inr (Some scenario_A)"
  by (simp add: schema_defs scenario_A_def js_trim_def is_js_space_def recipient_pattern_def
      is_digit_def)

text \<open>The issues of the elements of an array, index by index.\<close>

lemma zArray_items_issues:
  "fst (zArray_items element p i xs) =
     concat (map (\<lambda>j. fst (element (p @ [Idx (i + j)]) (Some (xs ! j)))) [0..<length xs])"
proof (induction xs arbitrary: i)
  case Nil
  then show ?case by simp
next
  case (Cons x xs)
  have u: "[0..<length (x # xs)] = 0 # map Suc [0..<length xs]"
    by (simp del: upt_Suc add: upt_conv_Cons map_Suc_upt)
  obtain is1 out where r: "element (p @ [Idx i]) (Some x) = (is1, out)"
    by (rule prod.exhaust)
  obtain is2 outs where t: "zArray_items element p (Suc i) xs = (is2, outs)"
    by (rule prod.exhaust)
  have "is2 = concat (map (\<lambda>j. fst (element (p @ [Idx (Suc i + j)]) (Some (xs ! j)))) [0..<length xs])"
    using Cons.IH [of "Suc i"] t by simp
  then show ?case
    unfolding u using r t by (simp add: comp_def)
qed

text \<open>The issues of the entries of a record of strings, entry by entry.\<close>

lemma zString_plain:
  "zString L [] p (Some x) =
     (if is_str x then ([], Some x) else ([Issue p (invalid_type L ''string'' (Some x))], None))"
  by (cases x) (simp_all add: zString_def)

lemma zRecord_entries_issues:
  "fst (zRecord_entries L (zString L []) p kvs) =
     map (\<lambda>(k, x). Issue (p @ [Key k]) (invalid_type L ''string'' (Some x)))
       (filter (\<lambda>(k, x). \<not> is_str x \<and> (k \<noteq> ''__proto__'' \<or> record_checks_proto L)) kvs)"
proof (induction kvs)
  case Nil
  then show ?case by simp
next
  case (Cons a kvs)
  obtain k x where a: "a = (k, x)" by (cases a)
  obtain is2 outs where t: "zRecord_entries L (zString L []) p kvs = (is2, outs)"
    by (rule prod.exhaust)
  from Cons.IH t have "is2 =
     map (\<lambda>(k, x). Issue (p @ [Key k]) (invalid_type L ''string'' (Some x)))
       (filter (\<lambda>(k, x). \<not> is_str x \<and> (k \<noteq> ''__proto__'' \<or> record_checks_proto L)) kvs)"
    by simp
  then show ?case
    using a t by (cases "is_str x") (simp_all add: zString_plain)
qed

lemma zRecord_entries_out:
  "fst (zRecord_entries L (zString L []) p kvs) = [] \<Longrightarrow>
     snd (zRecord_entries L (zString L []) p kvs) = filter (\<lambda>(k, x). k \<noteq> ''__proto__'') kvs"
proof (induction kvs)
  case Nil
  then show ?case by simp
next
  case (Cons a kvs)
  obtain k x where a: "a = (k, x)" by (cases a)
  obtain is2 outs where t: "zRecord_entries L (zString L []) p kvs = (is2, outs)"
    by (rule prod.exhaust)
  from Cons.prems a t have e: "is2 = []"
    by (simp add: zString_plain split: if_splits)
  with Cons.IH t have o: "outs = filter (\<lambda>(k, x). k \<noteq> ''__proto__'') kvs"
    by simp
  from Cons.prems a t have "k \<noteq> ''__proto__'' \<longrightarrow> is_str x"
    by (simp add: zString_plain split: if_splits)
  then show ?case
    using a t o by (cases "k = ''__proto__''") (simp_all add: zString_plain)
qed

section \<open>The server-facing schema, field by field\<close>

lemma tag_issues:
  "fst (zString L [trim_check, min_check 1 m] [Key k] v) = text_issues L k m v"
proof (cases v)
  case None
  then show ?thesis by (simp add: zString_def text_issues_def)
next
  case (Some x)
  then show ?thesis
    by (cases x) (simp_all add: zString_def text_issues_def trim_check_def min_check_def)
qed

lemma recipient_element_issues:
  "fst (zString L [trim_check,
          regex_check recipient_pattern ''Recipients must be numeric in international format'']
        [Key ''recipients'', Idx i] (Some x)) = recipient_issue L i x"
  by (cases x) (simp_all add: zString_def recipient_issue_def trim_check_def regex_check_def)

lemma recipients_issues:
  "fst (zArray L
          (zString L [trim_check,
             regex_check recipient_pattern ''Recipients must be numeric in international format''])
          1 ''Provide at least one recipient'' [Key ''recipients''] v) = recipient_issues L v"
proof (cases v)
  case None
  then show ?thesis by (simp add: zArray_def recipient_issues_def)
next
  case (Some x)
  show ?thesis
  proof (cases x)
    case (JArr xs)
    obtain iss outs where z: "zArray_items
          (zString L [trim_check,
             regex_check recipient_pattern ''Recipients must be numeric in international format''])
          [Key ''recipients''] 0 xs = (iss, outs)"
      by (rule prod.exhaust)
    have "iss = concat (map (\<lambda>i. recipient_issue L i (xs ! i)) [0..<length xs])"
      using zArray_items_issues [of "zString L [trim_check,
             regex_check recipient_pattern ''Recipients must be numeric in international format'']"
          "[Key ''recipients'']" 0 xs] z
      by (simp add: recipient_element_issues)
    then show ?thesis
      using Some JArr z by (simp add: zArray_def recipient_issues_def)
  qed (simp_all add: Some zArray_def recipient_issues_def)
qed

lemma mediaUrl_issues:
  "fst (zOptional (zString L [url_check L None]) [Key ''mediaUrl''] v) = url_issues L v"
proof (cases v)
  case None
  then show ?thesis by (simp add: zOptional_def url_issues_def)
next
  case (Some x)
  then show ?thesis
    by (cases x)
      (simp_all add: zOptional_def zString_def url_issues_def url_check_def split: option.splits)
qed

lemma workflowVars_issues:
  "fst (workflowVars_schema L [Key ''workflowVars''] v) = vars_issues L v"
proof (cases v)
  case None
  then show ?thesis by (simp add: workflowVars_schema_def zOptional_def vars_issues_def)
next
  case (Some x)
  show ?thesis
  proof (cases x)
    case (JObj kvs)
    obtain iss outs where z: "zRecord_entries L (zString L []) [Key ''workflowVars''] kvs = (iss, outs)"
      by (rule prod.exhaust)
    then show ?thesis
      using Some JObj zRecord_entries_issues [of L "[Key ''workflowVars'']" kvs]
      by (simp add: workflowVars_schema_def zOptional_def zRecord_def vars_issues_def)
  qed (simp_all add: Some workflowVars_schema_def zOptional_def zRecord_def vars_issues_def)
qed

lemma sendAt_issues:
  "fst (zRefine (sendAt_ok L) m (zOptional (zString L [])) [Key ''sendAt''] v) = date_issues L m v"
proof (cases v)
  case None
  then show ?thesis by (simp add: zRefine_def zOptional_def date_issues_def sendAt_ok_def)
next
  case (Some x)
  then show ?thesis
    by (cases x)
      (simp_all add: zRefine_def zOptional_def zString_def date_issues_def sendAt_ok_def)
qed

lemma inbound_fields_issues:
  "fst (zObject_fields (inbound_shape L) [] kvs) = inbound_issues L (JObj kvs)"
  unfolding zObject_fields_issues inbound_shape_def inbound_issues_def
  by (simp only: list.map prod.case concat.simps append_Nil append_Nil2 json.case
      tag_issues recipients_issues mediaUrl_issues workflowVars_issues sendAt_issues)

lemma safeParse_inbound:
  "safeParse (inboundSchema L) (Some body) =
     (if inbound_issues L body = [] then Inr (snd (inboundSchema L [] (Some body)))
      else Inl (inbound_issues L body))"
proof (cases body)
  case (JObj kvs)
  obtain iss outs where z: "zObject_fields (inbound_shape L) [] kvs = (iss, outs)"
    by (rule prod.exhaust)
  then have "iss = inbound_issues L (JObj kvs)"
    using inbound_fields_issues [of L kvs] by simp
  then show ?thesis
    using JObj z by (simp add: safeParse_def inboundSchema_def zObject_def)
qed (simp_all add: safeParse_def inboundSchema_def zObject_def inbound_issues_def)

lemma safeParse_inbound_Inl:
  "safeParse (inboundSchema L) (Some body) = Inl iss \<Longrightarrow> iss = inbound_issues L body"
  by (simp add: safeParse_inbound split: if_splits)

section \<open>The relay endpoint: outcomes\<close>

text \<open>The handler on a configured endpoint, once the body has passed the schema.\<close>

lemma POST_valid:
  assumes "N8N_WEBHOOK_URL e = Some url" "url \<noteq> []" "req_json req = Inr body"
    and "safeParse (inboundSchema L) (Some body) = Inr data"
  shows "POST L e now fetch req =
     (let c = outbound_call e url (enrich data now (req_origin req)) in
        case fetch c of
          Rejected error \<Rightarrow> call_failed c error
        | Resolved r \<Rightarrow>
            if \<not> resp_ok r then
              (case resp_text r of
                 Inl error \<Rightarrow> call_failed c error
               | Inr details \<Rightarrow>
                   \<lparr>answer = \<lparr>code = 502,
                               msg = ''n8n responded with status '' @ show_nat (resp_status r),
                               issues = (if details = [] then None else Some [details]),
                               n8nResponse = None\<rparr>,
                    calls = [c], logged = []\<rparr>)
            else
              \<lparr>answer = \<lparr>code = 200, msg = ''Workflow dispatched to n8n.'',
                          issues = None, n8nResponse = safeJson r\<rparr>,
               calls = [c], logged = []\<rparr>)"
  using assms by (simp add: POST_def)

lemma POST_calls:
  assumes "N8N_WEBHOOK_URL e = Some url" "url \<noteq> []" "req_json req = Inr body"
    and "safeParse (inboundSchema L) (Some body) = Inr data"
  shows "calls (POST L e now fetch req) =
     [outbound_call e url (enrich data now (req_origin req))]"
  using assms
  by (simp add: POST_def Let_def call_failed_def split: fetch_result.splits sum.splits)

lemma sample_env_configured:
  "N8N_WEBHOOK_URL sample_env = Some sample_url \<and> sample_url \<noteq> []"
  by (simp add: sample_env_def sample_url_def)

text \<open>
  C3. A body fails the server-facing schema exactly with the issues written out field by
  field above, all of them and in that order: every field reports whatever the others
  do, and inside the recipients and the variables every faulty element has its own
  issue. On a configured endpoint such a body is answered with status 422 and the
  messages of these issues, in their order, and no outbound call is made. The body of
  scenario C has the three issues of its three empty fields.
\<close>

theorem relay_validation_failure:
  "(safeParse (inboundSchema L) (Some body) = Inl iss) = (iss = inbound_issues L body \<and> iss \<noteq> [])
   \<and> (N8N_WEBHOOK_URL e = Some url \<and> url \<noteq> [] \<and> req_json req = Inr body
        \<and> inbound_issues L body \<noteq> [] \<longrightarrow>
        answer (POST L e now fetch req) =
          \<lparr>code = 422, msg = ''Validation failed'',
           issues = Some (map message (inbound_issues L body)), n8nResponse = None\<rparr>
        \<and> calls (POST L e now fetch req) = [])
   \<and> safeParse (inboundSchema L) (Some scenario_C) =
       Inl [Issue [Key ''workflowTag''] ''workflowTag is required'',
            Issue [Key ''recipients''] ''Provide at least one recipient'',
            Issue [Key ''message''] ''message is required'']"
proof (intro conjI impI)
  show "(safeParse (inboundSchema L) (Some body) = Inl iss) =
      (iss = inbound_issues L body \<and> iss \<noteq> [])"
    by (auto simp: safeParse_inbound)
next
  assume h: "N8N_WEBHOOK_URL e = Some url \<and> url \<noteq> [] \<and> req_json req = Inr body
        \<and> inbound_issues L body \<noteq> []"
  then have s: "safeParse (inboundSchema L) (Some body) = Inl (inbound_issues L body)"
    by (simp add: safeParse_inbound)
  from h s show "answer (POST L e now fetch req) =
          \<lparr>code = 422, msg = ''Validation failed'',
           issues = Some (map message (inbound_issues L body)), n8nResponse = None\<rparr>"
    by (simp add: POST_def)
  from h s show "calls (POST L e now fetch req) = []"
    by (simp add: POST_def)
next
  show "safeParse (inboundSchema L) (Some scenario_C) =
       Inl [Issue [Key ''workflowTag''] ''workflowTag is required'',
            Issue [Key ''recipients''] ''Provide at least one recipient'',
            Issue [Key ''message''] ''message is required'']"
    by (rule scenario_C_issues)
qed

lemma many_faults_issues:
  "inbound_issues sample_lib body_many_faults =
     [Issue [Key ''workflowTag''] ''workflowTag is required'',
      Issue [Key ''recipients'', Idx 0] ''Recipients must be numeric in international format'',
      Issue [Key ''recipients'', Idx 2] ''Recipients must be numeric in international format'',
      Issue [Key ''recipients'', Idx 3] ''Invalid input: expected string'',
      Issue [Key ''message''] ''Invalid input: expected string'',
      Issue [Key ''mediaUrl''] ''Invalid URL'',
      Issue [Key ''workflowVars'', Key ''a''] ''Invalid input: expected string'',
      Issue [Key ''workflowVars'', Key ''c''] ''Invalid input: expected string'',
      Issue [Key ''sendAt''] ''sendAt must be a valid ISO 8601 date string'']"
  by (simp add: inbound_issues_def body_many_faults_def text_issues_def recipient_issues_def
      recipient_issue_def url_issues_def vars_issues_def date_issues_def sample_lib_def eval_defs
      upt_rec)

theorem relay_validation_failure_witness:
  "safeParse (inboundSchema sample_lib) (Some body_many_faults) =
     Inl [Issue [Key ''workflowTag''] ''workflowTag is required'',
          Issue [Key ''recipients'', Idx 0] ''Recipients must be numeric in international format'',
          Issue [Key ''recipients'', Idx 2] ''Recipients must be numeric in international format'',
          Issue [Key ''recipients'', Idx 3] ''Invalid input: expected string'',
          Issue [Key ''message''] ''Invalid input: expected string'',
          Issue [Key ''mediaUrl''] ''Invalid URL'',
          Issue [Key ''workflowVars'', Key ''a''] ''Invalid input: expected string'',
          Issue [Key ''workflowVars'', Key ''c''] ''Invalid input: expected string'',
          Issue [Key ''sendAt''] ''sendAt must be a valid ISO 8601 date string'']
   \<and> answer (POST sample_lib sample_env sample_now (\<lambda>c. Rejected (JsValue ''unused''))
        (request_of body_many_faults)) =
       \<lparr>code = 422, msg = ''Validation failed'',
        issues = Some [''workflowTag is required'',
                       ''Recipients must be numeric in international format'',
                       ''Recipients must be numeric in international format'',
                       ''Invalid input: expected string'',
                       ''Invalid input: expected string'',
                       ''Invalid URL'',
                       ''Invalid input: expected string'',
                       ''Invalid input: expected string'',
                       ''sendAt must be a valid ISO 8601 date string''],
        n8nResponse = None\<rparr>
   \<and> calls (POST sample_lib sample_env sample_now (\<lambda>c. Rejected (JsValue ''unused''))
        (request_of body_many_faults)) = []
   \<and> answer (POST sample_lib sample_env sample_now (\<lambda>c. Rejected (JsValue ''unused''))
        (request_of scenario_C)) =
       \<lparr>code = 422, msg = ''Validation failed'',
        issues = Some [''workflowTag is required'', ''Provide at least one recipient'',
                       ''message is required''],
        n8nResponse = None\<rparr>"
proof -
  let ?fetch = "\<lambda>c :: fetch_call. Rejected (JsValue ''unused'')"
  note m = many_faults_issues
  have r: "req_json (request_of body_many_faults) = Inr body_many_faults"
    "req_json (request_of scenario_C) = Inr scenario_C"
    by (simp_all add: request_of_def)
  have c: "inbound_issues sample_lib scenario_C =
      [Issue [Key ''workflowTag''] ''workflowTag is required'',
       Issue [Key ''recipients''] ''Provide at least one recipient'',
       Issue [Key ''message''] ''message is required'']"
    using safeParse_inbound_Inl [OF scenario_C_issues] by simp
  show ?thesis
    using relay_validation_failure [of sample_lib body_many_faults
        "inbound_issues sample_lib body_many_faults" sample_env sample_url
        "request_of body_many_faults" sample_now ?fetch]
      relay_validation_failure [of sample_lib scenario_C "inbound_issues sample_lib scenario_C"
        sample_env sample_url "request_of scenario_C" sample_now ?fetch]
      sample_env_configured r
    by (simp add: m c)
qed

text \<open>
  C6. When the downstream URL is not set (the variable is absent or empty), the handler
  answers 500 with a message that names the variable, whatever the request, and makes no
  outbound call.
\<close>

theorem relay_unconfigured:
  "falsy_str (N8N_WEBHOOK_URL e) \<Longrightarrow>
     answer (POST L e now fetch req) =
       \<lparr>code = 500,
        msg = ''N8N_WEBHOOK_URL is not configured. Set it in your Vercel project environment variables.'',
        issues = None, n8nResponse = None\<rparr>
     \<and> calls (POST L e now fetch req) = []"
  by (auto simp: falsy_str_def POST_def not_configured_def split: option.splits)

theorem relay_unconfigured_witness:
  "falsy_str (N8N_WEBHOOK_URL \<lparr>N8N_WEBHOOK_URL = None, N8N_API_KEY = None\<rparr>)
   \<and> code (answer (POST sample_lib \<lparr>N8N_WEBHOOK_URL = None, N8N_API_KEY = None\<rparr> sample_now
        (\<lambda>c. Rejected (JsValue ''unused'')) (request_of scenario_A))) = 500
   \<and> calls (POST sample_lib \<lparr>N8N_WEBHOOK_URL = None, N8N_API_KEY = None\<rparr> sample_now
        (\<lambda>c. Rejected (JsValue ''unused'')) (request_of scenario_A)) = []"
proof -
  have h: "falsy_str (N8N_WEBHOOK_URL \<lparr>N8N_WEBHOOK_URL = None, N8N_API_KEY = None\<rparr>)"
    by (simp add: falsy_str_def)
  show ?thesis
    using h relay_unconfigured [OF h, of sample_lib sample_now
        "\<lambda>c. Rejected (JsValue ''unused'')" "request_of scenario_A"]
    by simp
qed

lemma digit_cases:
  "d < 10 \<Longrightarrow> d = 0 \<or> d = 1 \<or> d = 2 \<or> d = 3 \<or> d = 4 \<or> d = 5 \<or> d = 6 \<or> d = 7 \<or> d = 8 \<or> d = (9::nat)"
  by presburger

lemma digit_char_digit: "d < 10 \<Longrightarrow> digit_char d \<in> set ''0123456789''"
  by (drule digit_cases) (elim disjE, simp_all add: digit_char_def)

lemma digit_char_value: "d < 10 \<Longrightarrow> of_char (digit_char d) = (48 + d :: nat)"
  by (drule digit_cases) (elim disjE, simp_all add: digit_char_def)

lemma digit_char_zero: "d < 10 \<Longrightarrow> (digit_char d = CHR ''0'') = (d = 0)"
  by (drule digit_cases) (elim disjE, simp_all add: digit_char_def)

lemma show_nat_digits: "list_all (\<lambda>c. c \<in> set ''0123456789'') (show_nat n)"
proof (induction n rule: show_nat.induct)
  case (1 n)
  show ?case
  proof (cases "n < 10")
    case True
    then have "show_nat n = [digit_char n]" by (subst show_nat.simps) simp
    then show ?thesis using digit_char_digit [OF True] by simp
  next
    case False
    then have "show_nat n = show_nat (n div 10) @ [digit_char (n mod 10)]"
      by (subst show_nat.simps) simp
    then show ?thesis
      using 1 False digit_char_digit [of "n mod 10"] by simp
  qed
qed

lemma show_nat_value: "foldl (\<lambda>n c. 10 * n + (of_char c - 48)) 0 (show_nat n) = n"
proof (induction n rule: show_nat.induct)
  case (1 n)
  show ?case
  proof (cases "n < 10")
    case True
    then have "show_nat n = [digit_char n]" by (subst show_nat.simps) simp
    then show ?thesis using digit_char_value [OF True] by simp
  next
    case False
    then have "show_nat n = show_nat (n div 10) @ [digit_char (n mod 10)]"
      by (subst show_nat.simps) simp
    then show ?thesis
      using 1 False digit_char_value [of "n mod 10"] by simp
  qed
qed

lemma show_nat_head: "show_nat n \<noteq> [] \<and> (hd (show_nat n) = CHR ''0'' \<longrightarrow> n = 0)"
proof (induction n rule: show_nat.induct)
  case (1 n)
  show ?case
  proof (cases "n < 10")
    case True
    then have "show_nat n = [digit_char n]" by (subst show_nat.simps) simp
    then show ?thesis using digit_char_zero [OF True] by simp
  next
    case False
    then have s: "show_nat n = show_nat (n div 10) @ [digit_char (n mod 10)]"
      by (subst show_nat.simps) simp
    from False have "n div 10 \<noteq> 0" by simp
    then show ?thesis
      using 1 False s by (simp add: hd_append)
  qed
qed

lemma read_show_nat: "read_decimal (show_nat n) = Some n"
proof -
  have z: "show_nat n = ''0'' \<longleftrightarrow> n = 0"
  proof
    assume "show_nat n = ''0''"
    then have "hd (show_nat n) = CHR ''0''" by simp
    then show "n = 0" using show_nat_head [of n] by simp
  next
    assume "n = 0"
    then show "show_nat n = ''0''" by (simp add: show_nat.simps digit_char_def)
  qed
  show ?thesis
    using show_nat_head [of n] show_nat_digits [of n] show_nat_value [of n] z
    by (auto simp: read_decimal_def)
qed

text \<open>
  C8. On a configured endpoint and a body that passes the schema, when the outbound
  call throws, the handler answers 504 with one issue: the message of the error thrown,
  or, when what was thrown is no error, that value as text. It has then made exactly
  one outbound call and has written the failure to the error log.
\<close>

theorem relay_transport_failure:
  assumes "N8N_WEBHOOK_URL e = Some url" "url \<noteq> []" "req_json req = Inr body"
    and "safeParse (inboundSchema L) (Some body) = Inr data"
    and "fetch (outbound_call e url (enrich data now (req_origin req))) = Rejected error"
  shows "POST L e now fetch req =
     \<lparr>answer = \<lparr>code = 504, msg = ''Failed to communicate with n8n webhook.'',
                 issues = Some [case error of JsError name text \<Rightarrow> text | JsValue text \<Rightarrow> text],
                 n8nResponse = None\<rparr>,
      calls = [outbound_call e url (enrich data now (req_origin req))],
      logged = [(''[n8n] webhook call failed'', error)]\<rparr>"
  using assms by (cases error) (simp_all add: POST_valid call_failed_def)

theorem relay_transport_failure_witness:
  "answer (POST sample_lib sample_env sample_now
      (\<lambda>c. Rejected (JsError ''TypeError'' ''fetch failed'')) (request_of scenario_A)) =
     \<lparr>code = 504, msg = ''Failed to communicate with n8n webhook.'',
      issues = Some [''fetch failed''], n8nResponse = None\<rparr>
   \<and> answer (POST sample_lib sample_env sample_now
      (\<lambda>c. Rejected (JsValue ''socket hang up'')) (request_of scenario_A)) =
     \<lparr>code = 504, msg = ''Failed to communicate with n8n webhook.'',
      issues = Some [''socket hang up''], n8nResponse = None\<rparr>"
proof -
  have "req_json (request_of scenario_A) = Inr scenario_A"
    by (simp add: request_of_def)
  then show ?thesis
    using relay_transport_failure [of sample_env sample_url "request_of scenario_A" scenario_A
        sample_lib "Some scenario_A" "\<lambda>c. Rejected (JsError ''TypeError'' ''fetch failed'')"
        sample_now "JsError ''TypeError'' ''fetch failed''"]
      relay_transport_failure [of sample_env sample_url "request_of scenario_A" scenario_A
        sample_lib "Some scenario_A" "\<lambda>c. Rejected (JsValue ''socket hang up'')"
        sample_now "JsValue ''socket hang up''"]
      sample_env_configured scenario_A_data [of sample_lib]
    by simp
qed

text \<open>
  C7, as the code has it. On a configured endpoint and a body that passes the schema,
  when the downstream answers with a status outside 200 to 299: if its body is read as
  the text \<open>details\<close>, the handler answers 502, the message ends with the status as a
  decimal numeral, and the issues are the one text \<open>details\<close>, or are left out when it
  is empty; if reading the body throws, the handler answers 504 with the message of what
  was thrown as its one issue.
\<close>

theorem relay_gateway_error:
  assumes "N8N_WEBHOOK_URL e = Some url" "url \<noteq> []" "req_json req = Inr body"
    and "safeParse (inboundSchema L) (Some body) = Inr data"
    and "fetch (outbound_call e url (enrich data now (req_origin req))) = Resolved r"
    and "resp_status r < 200 \<or> 299 < resp_status r"
  shows "(resp_text r = Inr details \<longrightarrow>
       (\<exists>numeral. answer (POST L e now fetch req) =
          \<lparr>code = 502, msg = ''n8n responded with status '' @ numeral,
           issues = (if details = [] then None else Some [details]), n8nResponse = None\<rparr>
        \<and> read_decimal numeral = Some (resp_status r)))
     \<and> (resp_text r = Inl error \<longrightarrow>
       answer (POST L e now fetch req) =
          \<lparr>code = 504, msg = ''Failed to communicate with n8n webhook.'',
           issues = Some [case error of JsError name text \<Rightarrow> text | JsValue text \<Rightarrow> text],
           n8nResponse = None\<rparr>)"
proof (intro conjI impI)
  have n: "\<not> resp_ok r"
    using assms(6) by (auto simp: resp_ok_def)
  {
    assume "resp_text r = Inr details"
    then have "answer (POST L e now fetch req) =
          \<lparr>code = 502, msg = ''n8n responded with status '' @ show_nat (resp_status r),
           issues = (if details = [] then None else Some [details]), n8nResponse = None\<rparr>"
      using assms n by (simp add: POST_valid)
    then show "\<exists>numeral. answer (POST L e now fetch req) =
          \<lparr>code = 502, msg = ''n8n responded with status '' @ numeral,
           issues = (if details = [] then None else Some [details]), n8nResponse = None\<rparr>
        \<and> read_decimal numeral = Some (resp_status r)"
      using read_show_nat [of "resp_status r"] by blast
  }
  {
    assume "resp_text r = Inl error"
    then show "answer (POST L e now fetch req) =
          \<lparr>code = 504, msg = ''Failed to communicate with n8n webhook.'',
           issues = Some [case error of JsError name text \<Rightarrow> text | JsValue text \<Rightarrow> text],
           n8nResponse = None\<rparr>"
      using assms n by (cases error) (simp_all add: POST_valid call_failed_def)
  }
qed

lemma show_nat_samples: "show_nat 500 = ''500''" "show_nat 404 = ''404''"
  by (simp_all add: show_nat.simps digit_char_def)

theorem relay_gateway_error_witness:
  "answer (POST sample_lib sample_env sample_now
      (\<lambda>c. Resolved \<lparr>resp_status = 500, resp_text = Inr ''boom'',
                      resp_json = Inl (JsError ''SyntaxError'' ''Unexpected token'')\<rparr>)
      (request_of scenario_A)) =
     \<lparr>code = 502, msg = ''n8n responded with status 500'',
      issues = Some [''boom''], n8nResponse = None\<rparr>
   \<and> read_decimal ''500'' = Some 500
   \<and> answer (POST sample_lib sample_env sample_now
      (\<lambda>c. Resolved \<lparr>resp_status = 404, resp_text = Inr [],
                      resp_json = Inl (JsError ''SyntaxError'' ''Unexpected end'')\<rparr>)
      (request_of scenario_A)) =
     \<lparr>code = 502, msg = ''n8n responded with status 404'',
      issues = None, n8nResponse = None\<rparr>
   \<and> answer (POST sample_lib sample_env sample_now
      (\<lambda>c. Resolved \<lparr>resp_status = 500, resp_text = Inl (JsError ''TypeError'' ''terminated''),
                      resp_json = Inl (JsError ''TypeError'' ''terminated'')\<rparr>)
      (request_of scenario_A)) =
     \<lparr>code = 504, msg = ''Failed to communicate with n8n webhook.'',
      issues = Some [''terminated''], n8nResponse = None\<rparr>"
proof -
  let ?r1 = "\<lparr>resp_status = 500, resp_text = Inr ''boom'',
              resp_json = Inl (JsError ''SyntaxError'' ''Unexpected token'')\<rparr>"
  let ?r2 = "\<lparr>resp_status = 404, resp_text = Inr [],
              resp_json = Inl (JsError ''SyntaxError'' ''Unexpected end'')\<rparr>"
  let ?r3 = "\<lparr>resp_status = 500, resp_text = Inl (JsError ''TypeError'' ''terminated''),
              resp_json = Inl (JsError ''TypeError'' ''terminated'')\<rparr>"
  have q: "req_json (request_of scenario_A) = Inr scenario_A"
    by (simp add: request_of_def)
  note v = sample_env_configured [THEN conjunct1] sample_env_configured [THEN conjunct2] q
    scenario_A_data [of sample_lib]
  have 1: "\<exists>numeral. answer (POST sample_lib sample_env sample_now (\<lambda>c. Resolved ?r1)
        (request_of scenario_A)) =
      \<lparr>code = 502, msg = ''n8n responded with status '' @ numeral,
       issues = Some [''boom''], n8nResponse = None\<rparr> \<and> read_decimal numeral = Some 500"
    using relay_gateway_error [OF v, of "\<lambda>c. Resolved ?r1" sample_now ?r1 "''boom''"]
    by simp
  have m1: "msg (answer (POST sample_lib sample_env sample_now (\<lambda>c. Resolved ?r1)
        (request_of scenario_A))) = ''n8n responded with status 500''"
    by (simp add: POST_valid [OF v] resp_ok_def show_nat_samples)
  have 2: "\<exists>numeral. answer (POST sample_lib sample_env sample_now (\<lambda>c. Resolved ?r2)
        (request_of scenario_A)) =
      \<lparr>code = 502, msg = ''n8n responded with status '' @ numeral,
       issues = None, n8nResponse = None\<rparr> \<and> read_decimal numeral = Some 404"
    using relay_gateway_error [OF v, of "\<lambda>c. Resolved ?r2" sample_now ?r2 "[]"]
    by simp
  have m2: "msg (answer (POST sample_lib sample_env sample_now (\<lambda>c. Resolved ?r2)
        (request_of scenario_A))) = ''n8n responded with status 404''"
    by (simp add: POST_valid [OF v] resp_ok_def show_nat_samples)
  have 3: "answer (POST sample_lib sample_env sample_now (\<lambda>c. Resolved ?r3)
        (request_of scenario_A)) =
      \<lparr>code = 504, msg = ''Failed to communicate with n8n webhook.'',
       issues = Some [''terminated''], n8nResponse = None\<rparr>"
    using relay_gateway_error [OF v, of "\<lambda>c. Resolved ?r3" sample_now ?r3 _
        "JsError ''TypeError'' ''terminated''"]
    by simp
  from 1 m1 have a1: "answer (POST sample_lib sample_env sample_now (\<lambda>c. Resolved ?r1)
        (request_of scenario_A)) =
      \<lparr>code = 502, msg = ''n8n responded with status 500'',
       issues = Some [''boom''], n8nResponse = None\<rparr> \<and> read_decimal ''500'' = Some 500"
    by auto
  from 2 m2 have a2: "answer (POST sample_lib sample_env sample_now (\<lambda>c. Resolved ?r2)
        (request_of scenario_A)) =
      \<lparr>code = 502, msg = ''n8n responded with status 404'',
       issues = None, n8nResponse = None\<rparr>"
    by auto
  from a1 a2 3 show ?thesis by simp
qed

text \<open>
  C7 as stated fails: a request that passes the schema, a downstream that answers 500,
  and a body that cannot be read; the handler answers 504.
\<close>

theorem relay_gateway_error_counterexample:
  "safeParse (inboundSchema sample_lib) (Some scenario_A) = Inr (Some scenario_A)
   \<and> code (answer (POST sample_lib sample_env sample_now
        (\<lambda>c. Resolved \<lparr>resp_status = 500, resp_text = Inl (JsError ''TypeError'' ''terminated''),
                        resp_json = Inl (JsError ''TypeError'' ''terminated'')\<rparr>)
        (request_of scenario_A))) = 504"
  using scenario_A_data [of sample_lib] sample_env_configured
  by (simp add: POST_def request_of_def resp_ok_def call_failed_def)

section \<open>The relay endpoint: what is forwarded\<close>

lemma presence_zString: "presence (zString L cs)"
  by (auto simp: presence_def zString_def split: option.splits json.splits prod.splits)

lemma presence_zArray: "presence (zArray L el n m)"
  by (auto simp: presence_def zArray_def split: option.splits json.splits prod.splits)

lemma presence_zRecord: "presence (zRecord L val)"
  by (auto simp: presence_def zRecord_def split: option.splits json.splits prod.splits)

lemma presence_zOptional: "presence s \<Longrightarrow> presence (zOptional s)"
  by (auto simp: presence_def zOptional_def split: option.splits)

lemma presence_zRefine: "presence s \<Longrightarrow> presence (zRefine ok m s)"
  by (auto simp: presence_def zRefine_def split: prod.splits if_splits)
    (metis fst_conv snd_conv)+

lemma presence_inbound: "\<forall>(k, s) \<in> set (inbound_shape L). presence s"
  by (simp add: inbound_shape_def workflowVars_schema_def presence_zString presence_zArray
      presence_zRecord presence_zOptional presence_zRefine)

lemma inbound_shape_keys: "map fst (inbound_shape L) = schema_keys"
  by (simp add: inbound_shape_def schema_keys_def)

lemma zObject_fields_keys:
  assumes "\<forall>(k, s) \<in> set shape. presence s"
    and "fst (zObject_fields shape p kvs) = []"
  shows "map fst (snd (zObject_fields shape p kvs)) =
     filter (\<lambda>k. map_of kvs k \<noteq> None) (map fst shape)"
  using assms
proof (induction shape)
  case Nil
  then show ?case by simp
next
  case (Cons a shape)
  obtain k s where a: "a = (k, s)" by (cases a)
  obtain is1 out where r: "s (p @ [Key k]) (map_of kvs k) = (is1, out)"
    by (cases "s (p @ [Key k]) (map_of kvs k)")
  obtain is2 outs where t: "zObject_fields shape p kvs = (is2, outs)"
    by (cases "zObject_fields shape p kvs")
  from Cons.prems(2) a r t have e: "is1 = []" "is2 = []" by auto
  from Cons.prems(1) a have "presence s" by simp
  with r e have o: "out = None \<longleftrightarrow> map_of kvs k = None"
    unfolding presence_def by (metis fst_conv snd_conv)
  from Cons.IH Cons.prems(1) t e
  have ih: "map fst outs = filter (\<lambda>k. map_of kvs k \<noteq> None) (map fst shape)" by simp
  show ?case using a r t o ih by (auto split: option.splits)
qed

lemma obj_set_fresh: "k \<notin> fst ` set kvs \<Longrightarrow> obj_set k v kvs = kvs @ [(k, v)]"
  by (induction kvs) auto

lemma defined_props_append: "defined_props (xs @ ys) = defined_props xs @ defined_props ys"
  by (induction xs rule: defined_props.induct) auto

lemma defined_props_Some: "defined_props (map (\<lambda>(k, v). (k, Some v)) kvs) = kvs"
  by (induction kvs) auto

lemma enrich_fresh:
  assumes "''requestedAt'' \<notin> set (map fst outs)" "''origin'' \<notin> set (map fst outs)"
  shows "JSON_stringify (enrich (Some (JObj outs)) now origin) =
     JObj (outs @ [(''requestedAt'', JStr now)]
             @ (case origin of None \<Rightarrow> [] | Some v \<Rightarrow> [(''origin'', JStr v)]))"
proof -
  let ?sp = "map (\<lambda>(k, v). (k, Some v)) outs"
  have f: "fst ` set ?sp = set (map fst outs)" by force
  have 1: "obj_set ''requestedAt'' (Some (JStr now)) ?sp = ?sp @ [(''requestedAt'', Some (JStr now))]"
    using assms(1) f by (intro obj_set_fresh) simp
  have 2: "obj_set ''origin'' w (?sp @ [(''requestedAt'', Some (JStr now))])
      = ?sp @ [(''requestedAt'', Some (JStr now))] @ [(''origin'', w)]" for w
    using assms(2) f obj_set_fresh [of "''origin''" "?sp @ [(''requestedAt'', Some (JStr now))]" w]
    by simp
  show ?thesis
    by (cases origin)
      (simp_all add: JSON_stringify_def enrich_def spread_def 1 2 defined_props_append
        defined_props_Some)
qed

lemma forwarded_body:
  assumes "safeParse (inboundSchema L) (Some body) = Inr data"
  shows "\<exists>outs. data = Some (JObj outs)
     \<and> map fst outs = filter (\<lambda>k. obj_get k body \<noteq> None) schema_keys
     \<and> JSON_stringify (enrich data now origin) =
         JObj (outs @ [(''requestedAt'', JStr now)]
                 @ (case origin of None \<Rightarrow> [] | Some v \<Rightarrow> [(''origin'', JStr v)]))"
proof -
  from assms obtain kvs where b: "body = JObj kvs"
    by (cases body) (auto simp: safeParse_def inboundSchema_def zObject_def split: if_splits)
  obtain iss outs where z: "zObject_fields (inbound_shape L) [] kvs = (iss, outs)"
    by (cases "zObject_fields (inbound_shape L) [] kvs")
  from assms b z have e: "iss = []" and d: "data = Some (JObj outs)"
    by (auto simp: safeParse_def inboundSchema_def zObject_def split: if_splits)
  have k: "map fst outs = filter (\<lambda>k. map_of kvs k \<noteq> None) schema_keys"
    using zObject_fields_keys [OF presence_inbound, of L "[]" kvs] z e
    by (simp add: inbound_shape_keys)
  then have "set (map fst outs) \<subseteq> set schema_keys" by auto
  then have n: "''requestedAt'' \<notin> set (map fst outs)" "''origin'' \<notin> set (map fst outs)"
    by (auto simp: schema_keys_def)
  show ?thesis
    using d k b enrich_fresh [OF n] by (simp add: obj_get_def)
qed

lemma body_extra_data:
  "safeParse (inboundSchema L) (Some body_extra) = Inr (Some scenario_A)"
  by (simp add: schema_defs scenario_A_def body_extra_def js_trim_def is_js_space_def recipient_pattern_def
      is_digit_def)

lemma count_list_notin: "x \<notin> set xs \<Longrightarrow> count_list xs x = 0"
  by (induction xs) auto

lemma server_fields_of_body:
  assumes "''requestedAt'' \<notin> set (map fst outs)" "''origin'' \<notin> set (map fst outs)"
    and "b = JObj (outs @ [(''requestedAt'', JStr now)]
             @ (case origin of None \<Rightarrow> [] | Some v \<Rightarrow> [(''origin'', JStr v)]))"
  shows "obj_get ''requestedAt'' b = Some (JStr now)
     \<and> obj_get ''origin'' b = map_option JStr origin
     \<and> count_list (obj_keys b) ''requestedAt'' = 1
     \<and> count_list (obj_keys b) ''origin'' = (if origin = None then 0 else 1)"
proof -
  have 1: "map_of outs ''requestedAt'' = None" "map_of outs ''origin'' = None"
    using assms(1,2) by (simp_all add: map_of_eq_None_iff)
  have 2: "count_list (map fst outs) ''requestedAt'' = 0" "count_list (map fst outs) ''origin'' = 0"
    using assms(1,2) by (simp_all add: count_list_notin)
  show ?thesis
    using 1 2 assms(3)
    by (cases origin) (simp_all add: obj_get_def obj_keys_def map_add_def)
qed

text \<open>
  C10. On a configured endpoint, for a body that passes the schema, exactly one call is
  made and its body is the validated data followed by \<^verbatim>\<open>requestedAt\<close> and,
  when the request has an \<^verbatim>\<open>origin\<close> header, \<^verbatim>\<open>origin\<close>. The
  fields of the data are those of the six schema fields that the body of the client
  has, in the order of the schema: any other key of the client is gone.
\<close>

theorem forwarded_fields:
  assumes "N8N_WEBHOOK_URL e = Some url" "url \<noteq> []" "req_json req = Inr body"
    and "safeParse (inboundSchema L) (Some body) = Inr data"
  shows "map call_body (calls (POST L e now fetch req)) =
       [JObj (data_props data @ [(''requestedAt'', JStr now)]
                @ (case req_origin req of None \<Rightarrow> [] | Some v \<Rightarrow> [(''origin'', JStr v)]))]
     \<and> map fst (data_props data) = filter (\<lambda>k. obj_get k body \<noteq> None) schema_keys"
proof -
  from forwarded_body [OF assms(4), of now "req_origin req"]
  obtain outs where o: "data = Some (JObj outs)"
    "map fst outs = filter (\<lambda>k. obj_get k body \<noteq> None) schema_keys"
    "JSON_stringify (enrich data now (req_origin req)) =
       JObj (outs @ [(''requestedAt'', JStr now)]
               @ (case req_origin req of None \<Rightarrow> [] | Some v \<Rightarrow> [(''origin'', JStr v)]))"
    by blast
  show ?thesis
    using o by (simp add: POST_calls [OF assms] outbound_call_def data_props_def)
qed

theorem forwarded_fields_witness:
  "map call_body (calls (POST sample_lib sample_env sample_now
       (\<lambda>c. Rejected (JsValue ''unused'')) (request_of body_extra))) =
     [JObj [(''workflowTag'', JStr ''promo''), (''recipients'', JArr [JStr ''15551234567'']),
            (''message'', JStr ''hi''), (''requestedAt'', JStr sample_now)]]"
proof -
  have r: "req_json (request_of body_extra) = Inr body_extra"
    "req_origin (request_of body_extra) = None"
    by (simp_all add: request_of_def)
  show ?thesis
    using forwarded_fields [of sample_env sample_url "request_of body_extra" body_extra
        sample_lib "Some scenario_A" sample_now "\<lambda>c. Rejected (JsValue ''unused'')"]
      sample_env_configured body_extra_data [of sample_lib] r
    by (simp add: data_props_def scenario_A_def)
qed

text \<open>
  C2. Whatever the request, every call the handler makes carries in its body exactly one
  \<^verbatim>\<open>requestedAt\<close>, which is the time of the server, and an
  \<^verbatim>\<open>origin\<close> exactly when the request has an \<^verbatim>\<open>origin\<close> header,
  whose value it then is; nothing the client wrote under these two keys is forwarded. On
  a configured endpoint a body that passes the schema leads to exactly one call.
\<close>

theorem server_owned_fields:
  "(\<forall>c \<in> set (calls (POST L e now fetch req)).
       obj_get ''requestedAt'' (call_body c) = Some (JStr now)
     \<and> obj_get ''origin'' (call_body c) = map_option JStr (req_origin req)
     \<and> count_list (obj_keys (call_body c)) ''requestedAt'' = 1
     \<and> count_list (obj_keys (call_body c)) ''origin'' = (if req_origin req = None then 0 else 1))
   \<and> (\<forall>url body data. N8N_WEBHOOK_URL e = Some url \<and> url \<noteq> [] \<and> req_json req = Inr body
         \<and> safeParse (inboundSchema L) (Some body) = Inr data
       \<longrightarrow> length (calls (POST L e now fetch req)) = 1)"
proof (rule conjI)
  show "\<forall>url body data. N8N_WEBHOOK_URL e = Some url \<and> url \<noteq> [] \<and> req_json req = Inr body
         \<and> safeParse (inboundSchema L) (Some body) = Inr data
       \<longrightarrow> length (calls (POST L e now fetch req)) = 1"
    using POST_calls [of e _ req _ L _ now fetch] by simp
next
  show "\<forall>c \<in> set (calls (POST L e now fetch req)).
       obj_get ''requestedAt'' (call_body c) = Some (JStr now)
     \<and> obj_get ''origin'' (call_body c) = map_option JStr (req_origin req)
     \<and> count_list (obj_keys (call_body c)) ''requestedAt'' = 1
     \<and> count_list (obj_keys (call_body c)) ''origin'' = (if req_origin req = None then 0 else 1)"
  proof (rule ballI)
    fix c
    assume c: "c \<in> set (calls (POST L e now fetch req))"
    have "\<exists>url body data. N8N_WEBHOOK_URL e = Some url \<and> url \<noteq> [] \<and> req_json req = Inr body
           \<and> safeParse (inboundSchema L) (Some body) = Inr data"
    proof (rule ccontr)
      assume "\<not> ?thesis"
      then have "calls (POST L e now fetch req) = []"
        by (auto simp: POST_def not_configured_def split: option.splits sum.splits)
      with c show False by simp
    qed
    then obtain url body data where v: "N8N_WEBHOOK_URL e = Some url" "url \<noteq> []"
      "req_json req = Inr body" "safeParse (inboundSchema L) (Some body) = Inr data"
      by blast
    from forwarded_body [OF v(4), of now "req_origin req"]
    obtain outs where o: "data = Some (JObj outs)"
      "map fst outs = filter (\<lambda>k. obj_get k body \<noteq> None) schema_keys"
      "JSON_stringify (enrich data now (req_origin req)) =
         JObj (outs @ [(''requestedAt'', JStr now)]
                 @ (case req_origin req of None \<Rightarrow> [] | Some v \<Rightarrow> [(''origin'', JStr v)]))"
      by blast
    from o(2) have "set (map fst outs) \<subseteq> set schema_keys" by auto
    then have n: "''requestedAt'' \<notin> set (map fst outs)" "''origin'' \<notin> set (map fst outs)"
      by (auto simp: schema_keys_def)
    have b: "call_body c = JObj (outs @ [(''requestedAt'', JStr now)]
                 @ (case req_origin req of None \<Rightarrow> [] | Some v \<Rightarrow> [(''origin'', JStr v)]))"
      using c o(3) POST_calls [OF v, of now fetch] by (simp add: outbound_call_def)
    show "obj_get ''requestedAt'' (call_body c) = Some (JStr now)
       \<and> obj_get ''origin'' (call_body c) = map_option JStr (req_origin req)
       \<and> count_list (obj_keys (call_body c)) ''requestedAt'' = 1
       \<and> count_list (obj_keys (call_body c)) ''origin'' = (if req_origin req = None then 0 else 1)"
      by (rule server_fields_of_body [OF n b])
  qed
qed

theorem server_owned_fields_witness:
  "map (\<lambda>c. (obj_get ''requestedAt'' (call_body c), obj_get ''origin'' (call_body c)))
     (calls (POST sample_lib sample_env sample_now (\<lambda>c. Rejected (JsValue ''unused''))
        \<lparr>req_json = Inr body_extra, req_origin = Some ''https://app.example''\<rparr>)) =
     [(Some (JStr sample_now), Some (JStr ''https://app.example''))]"
proof -
  let ?req = "\<lparr>req_json = Inr body_extra, req_origin = Some ''https://app.example''\<rparr>"
  let ?fetch = "\<lambda>c :: fetch_call. Rejected (JsValue ''unused'')"
  have v: "N8N_WEBHOOK_URL sample_env = Some sample_url \<and> sample_url \<noteq> []
      \<and> req_json ?req = Inr body_extra
      \<and> safeParse (inboundSchema sample_lib) (Some body_extra) = Inr (Some scenario_A)"
    using sample_env_configured body_extra_data [of sample_lib] by simp
  have "length (calls (POST sample_lib sample_env sample_now ?fetch ?req)) = 1"
    using server_owned_fields [of sample_lib sample_env sample_now ?fetch ?req] v by blast
  then obtain c where c: "calls (POST sample_lib sample_env sample_now ?fetch ?req) = [c]"
    by (auto simp: length_Suc_conv)
  then show ?thesis
    using server_owned_fields [of sample_lib sample_env sample_now ?fetch ?req] by simp
qed

section \<open>The two validators against each other\<close>

text \<open>
  C4. The server-facing schema at a body whose \<^verbatim>\<open>mediaUrl\<close> is the empty
  string, which is not a URL: it raises the issue of the URL check at
  \<^verbatim>\<open>mediaUrl\<close>, where the field of the client-facing schema, which allows the
  empty string beside a URL, raises none.
\<close>

theorem inbound_empty_mediaUrl:
  "url_parse L [] = None \<Longrightarrow>
     safeParse (inboundSchema L) (Some body_empty_media) = Inl [Issue [Key ''mediaUrl''] (invalid_url L)]
     \<and> fst (zOr L (zOptional (zString L [url_check L (Some ''Must be a valid URL'')])) (zLiteral L [])
              [Key ''mediaUrl''] (Some (JStr []))) = []"
  by (simp add: schema_defs body_empty_media_def eval_defs zOr_def zLiteral_def)

theorem inbound_empty_mediaUrl_witness:
  "url_parse sample_lib [] = None
   \<and> safeParse (inboundSchema sample_lib) (Some body_empty_media) = Inl [Issue [Key ''mediaUrl''] ''Invalid URL'']"
proof -
  have h: "url_parse sample_lib [] = None" by (simp add: sample_lib_def)
  show ?thesis using h inbound_empty_mediaUrl [OF h] by (simp add: sample_lib_def)
qed

text \<open>
  C1. The form at its default values, the empty string being no URL: the client-facing
  validator accepts and produces a body that the server-facing schema rejects, for its
  empty \<^verbatim>\<open>mediaUrl\<close>. With the recipient \<^verbatim>\<open>abc\<close> the
  client-facing validator accepts as well, having no pattern for recipients, and the
  server-facing schema adds the issue of the pattern.
\<close>

theorem default_form_rejected:
  assumes "url_parse L [] = None"
    and "json_parse L default_vars_text = Inr (JObj [(''source'', JStr ''web-portal'')])"
  shows "handleSubmit L defaultValues = Inr (default_body ''15551234567'')
     \<and> safeParse (inboundSchema L) (Some (default_body ''15551234567'')) =
         Inl [Issue [Key ''mediaUrl''] (invalid_url L)]
     \<and> handleSubmit L (defaultValues\<lparr>form_recipients := ''abc''\<rparr>) = Inr (default_body ''abc'')
     \<and> safeParse (inboundSchema L) (Some (default_body ''abc'')) =
         Inl [Issue [Key ''recipients'', Idx 0] ''Recipients must be numeric in international format'',
              Issue [Key ''mediaUrl''] (invalid_url L)]"
proof (intro conjI)
  have t: "tryParseWorkflowVars L default_vars_text = Inr (Some (JObj [(''source'', JStr ''web-portal'')]))"
    using assms(2) by (simp add: tryParseWorkflowVars_def default_vars_text_def eval_defs)
  show "handleSubmit L defaultValues = Inr (default_body ''15551234567'')"
    using assms(1) t
    by (simp add: handleSubmit_def defaultValues_def draft_def normalizeDateField_def payload_defs
        split_recipients_def js_split_def is_sep_def eval_defs default_body_def JSON_stringify_def spread_def)
  show "handleSubmit L (defaultValues\<lparr>form_recipients := ''abc''\<rparr>) = Inr (default_body ''abc'')"
    using assms(1) t
    by (simp add: handleSubmit_def defaultValues_def draft_def normalizeDateField_def payload_defs
        split_recipients_def js_split_def is_sep_def eval_defs default_body_def JSON_stringify_def spread_def)
  show "safeParse (inboundSchema L) (Some (default_body ''15551234567'')) =
         Inl [Issue [Key ''mediaUrl''] (invalid_url L)]"
    using assms(1) by (simp add: schema_defs default_body_def eval_defs)
  show "safeParse (inboundSchema L) (Some (default_body ''abc'')) =
         Inl [Issue [Key ''recipients'', Idx 0] ''Recipients must be numeric in international format'',
              Issue [Key ''mediaUrl''] (invalid_url L)]"
    using assms(1) by (simp add: schema_defs default_body_def eval_defs)
qed

theorem default_form_rejected_witness:
  "handleSubmit sample_lib defaultValues = Inr (default_body ''15551234567'')
   \<and> answer (POST sample_lib sample_env sample_now (\<lambda>c. Rejected (JsValue ''unused''))
        (request_of (default_body ''15551234567''))) =
       \<lparr>code = 422, msg = ''Validation failed'', issues = Some [''Invalid URL''],
        n8nResponse = None\<rparr>"
proof -
  have h: "url_parse sample_lib [] = None"
    "json_parse sample_lib default_vars_text = Inr (JObj [(''source'', JStr ''web-portal'')])"
    by (simp_all add: sample_lib_def)
  have i: "invalid_url sample_lib = ''Invalid URL''"
    by (simp add: sample_lib_def)
  show ?thesis
    using default_form_rejected [OF h] sample_env_configured i
    by (simp add: POST_def request_of_def)
qed

section \<open>The variables of the workflow\<close>















lemma workflowVars_out:
  "fst (workflowVars_schema L p w) = [] \<Longrightarrow>
     snd (workflowVars_schema L p w) = map_option without_proto w"
proof (cases w)
  case None
  then show ?thesis by (simp add: workflowVars_schema_def zOptional_def)
next
  case (Some x)
  assume e: "fst (workflowVars_schema L p w) = []"
  show ?thesis
  proof (cases x)
    case (JObj kvs)
    obtain iss outs where z: "zRecord_entries L (zString L []) p kvs = (iss, outs)"
      by (rule prod.exhaust)
    with e Some JObj have "iss = []"
      by (simp add: workflowVars_schema_def zOptional_def zRecord_def)
    then have "outs = filter (\<lambda>(k, x). k \<noteq> ''__proto__'') kvs"
      using zRecord_entries_out [of L p kvs] z by simp
    then show ?thesis
      using Some JObj z
      by (simp add: workflowVars_schema_def zOptional_def zRecord_def without_proto_def)
  qed (use e Some in \<open>simp_all add: workflowVars_schema_def zOptional_def zRecord_def\<close>)
qed









section \<open>What a successful validation returns\<close>

lemma recipients_items:
  "list_all (\<lambda>r. recipient_pattern (js_trim r)) rs \<Longrightarrow>
     zArray_items (zString L [trim_check, regex_check recipient_pattern m]) p i (map JStr rs) =
       ([], map (\<lambda>r. JStr (js_trim r)) rs)"
  by (induction rs arbitrary: i) (simp_all add: zString_def trim_check_def regex_check_def)

lemma tag_field:
  "js_trim t \<noteq> [] \<Longrightarrow>
     zString L [trim_check, min_check (Suc 0) m] p (Some (JStr t)) = ([], Some (JStr (js_trim t)))"
  by (cases "js_trim t") (simp_all add: zString_def trim_check_def min_check_def)

lemma recipients_field:
  "rs \<noteq> [] \<Longrightarrow> list_all (\<lambda>r. recipient_pattern (js_trim r)) rs \<Longrightarrow>
     zArray L (zString L [trim_check, regex_check recipient_pattern m]) (Suc 0) m' p
         (Some (JArr (map JStr rs))) =
       ([], Some (JArr (map (\<lambda>r. JStr (js_trim r)) rs)))"
  by (simp add: zArray_def recipients_items)

lemma mediaUrl_field:
  "(mu \<noteq> None \<longrightarrow> Option.bind mu (url_parse L) \<noteq> None) \<Longrightarrow>
     zOptional (zString L [url_check L None]) p (map_option JStr mu) =
       ([], map_option JStr (Option.bind mu (url_parse L)))"
  by (cases mu) (auto simp: zOptional_def zString_def url_check_def)

lemma vars_field:
  assumes "case wv of None \<Rightarrow> True | Some w \<Rightarrow> is_string_record w"
  shows "workflowVars_schema L p wv = ([], map_option without_proto wv)"
proof -
  have "fst (workflowVars_schema L p wv) = []"
  proof (cases wv)
    case None
    then show ?thesis by (simp add: workflowVars_schema_def zOptional_def)
  next
    case (Some w)
    with assms obtain kvs where w: "w = JObj kvs" "list_all (\<lambda>(k, x). is_str x) kvs"
      by (cases w) simp_all
    from w(2) have "filter (\<lambda>(k, x). \<not> is_str x \<and> (k \<noteq> ''__proto__'' \<or> record_checks_proto L)) kvs = []"
      by (induction kvs) auto
    then have "fst (zRecord_entries L (zString L []) p kvs) = []"
      by (simp add: zRecord_entries_issues)
    then show ?thesis
      using Some w(1)
      by (cases "zRecord_entries L (zString L []) p kvs")
        (simp add: workflowVars_schema_def zOptional_def zRecord_def)
  qed
  then show ?thesis
    using workflowVars_out [of L p wv] by (simp add: prod_eq_iff)
qed

lemma sendAt_field:
  "(case sa of None \<Rightarrow> True | Some s \<Rightarrow> s = [] \<or> \<not> date_nan L s) \<Longrightarrow>
     zRefine (sendAt_ok L) m (zOptional (zString L [])) p (map_option JStr sa) =
       ([], map_option JStr sa)"
  by (cases sa) (auto simp: zRefine_def zOptional_def zString_def sendAt_ok_def)

lemma inbound_accepts:
  assumes "obj_get ''workflowTag'' body = Some (JStr t)" "js_trim t \<noteq> []"
    and "obj_get ''recipients'' body = Some (JArr (map JStr rs))" "rs \<noteq> []"
    and "list_all (\<lambda>r. recipient_pattern (js_trim r)) rs"
    and "obj_get ''message'' body = Some (JStr m)" "js_trim m \<noteq> []"
    and "obj_get ''mediaUrl'' body = map_option JStr mu"
    and "mu \<noteq> None \<longrightarrow> Option.bind mu (url_parse L) \<noteq> None"
    and "obj_get ''workflowVars'' body = wv"
    and "case wv of None \<Rightarrow> True | Some w \<Rightarrow> is_string_record w"
    and "obj_get ''sendAt'' body = map_option JStr sa"
    and "case sa of None \<Rightarrow> True | Some s \<Rightarrow> s = [] \<or> \<not> date_nan L s"
  shows "safeParse (inboundSchema L) (Some body) =
     Inr (Some (JObj
       ([(''workflowTag'', JStr (js_trim t)),
         (''recipients'', JArr (map (\<lambda>r. JStr (js_trim r)) rs)),
         (''message'', JStr (js_trim m))]
        @ optional_prop ''mediaUrl'' (map_option JStr (Option.bind mu (url_parse L)))
        @ optional_prop ''workflowVars'' (map_option without_proto wv)
        @ optional_prop ''sendAt'' (map_option JStr sa))))"
proof -
  from assms(1) obtain kvs where b: "body = JObj kvs"
    by (cases body) (simp_all add: obj_get_def)
  have l: "map_of kvs ''workflowTag'' = Some (JStr t)"
    "map_of kvs ''recipients'' = Some (JArr (map JStr rs))"
    "map_of kvs ''message'' = Some (JStr m)"
    "map_of kvs ''mediaUrl'' = map_option JStr mu"
    "map_of kvs ''workflowVars'' = wv"
    "map_of kvs ''sendAt'' = map_option JStr sa"
    using assms b by (simp_all add: obj_get_def)
  show ?thesis
    unfolding b safeParse_def inboundSchema_def inbound_shape_def zObject_def
    by (simp add: l tag_field [OF assms(2)] tag_field [OF assms(7)]
        recipients_field [OF assms(4,5)] mediaUrl_field [OF assms(9)]
        vars_field [OF assms(11)] sendAt_field [OF assms(13)] optional_prop_def
        split: option.splits)
qed

text \<open>What \<^verbatim>\<open>tryParseWorkflowVars\<close> accepts is a record of strings without \<^verbatim>\<open>__proto__\<close>.\<close>

lemma obj_set_list_all: "list_all P acc \<Longrightarrow> P (k, v) \<Longrightarrow> list_all P (obj_set k v acc)"
  by (induction acc) auto

lemma stringify_values_record:
  "list_all (\<lambda>(k, x). is_str x \<and> k \<noteq> ''__proto__'') acc \<Longrightarrow> stringify_values acc kvs = Some out \<Longrightarrow>
     list_all (\<lambda>(k, x). is_str x \<and> k \<noteq> ''__proto__'') out"
proof (induction kvs arbitrary: acc)
  case Nil
  then show ?case by simp
next
  case (Cons a kvs)
  obtain k v where a: "a = (k, v)" by (cases a)
  from Cons.prems(2) a obtain s where s: "js_String v = Some s"
    by (cases "js_String v") simp_all
  show ?case
  proof (cases "k = ''__proto__''")
    case True
    with Cons.prems a s have "stringify_values acc kvs = Some out" by simp
    then show ?thesis using Cons.IH Cons.prems(1) by blast
  next
    case False
    with Cons.prems a s have r: "stringify_values (obj_set k (JStr s) acc) kvs = Some out" by simp
    have "list_all (\<lambda>(k, x). is_str x \<and> k \<noteq> ''__proto__'') (obj_set k (JStr s) acc)"
      using Cons.prems(1) False by (intro obj_set_list_all) simp_all
    then show ?thesis using Cons.IH r by blast
  qed
qed

lemma record_without_proto:
  "list_all (\<lambda>(k, x). is_str x \<and> k \<noteq> ''__proto__'') kvs \<Longrightarrow>
     is_string_record (JObj kvs) \<and> without_proto (JObj kvs) = JObj kvs"
  by (induction kvs) (auto simp: without_proto_def)

lemma tryParse_record:
  assumes "tryParseWorkflowVars L input = Inr wv"
  shows "(case wv of None \<Rightarrow> True | Some w \<Rightarrow> is_string_record w) \<and> map_option without_proto wv = wv"
proof (cases wv)
  case None
  then show ?thesis by simp
next
  case (Some w)
  with assms obtain kvs out where "stringify_values [] kvs = Some out" "w = JObj out"
    by (auto simp: tryParseWorkflowVars_def split: if_splits sum.splits option.splits)
  then show ?thesis
    using stringify_values_record [of "[]" kvs out] record_without_proto [of out] Some by simp
qed

lemma recipients_text_field:
  "js_trim r \<noteq> [] \<Longrightarrow>
     zTransform split_recipients (zString L [trim_check, min_check (Suc 0) m]) p (Some (JStr r)) =
       ([], Some (split_recipients (js_trim r)))"
  by (simp add: zTransform_def tag_field)

lemma mediaUrl_text_field:
  "u = [] \<or> url_parse L u \<noteq> None \<Longrightarrow>
     zOr L (zOptional (zString L [url_check L (Some m)])) (zLiteral L []) p (Some (JStr u)) =
       ([], Some (JStr (case url_parse L u of None \<Rightarrow> [] | Some u' \<Rightarrow> u')))"
  by (cases "url_parse L u")
    (auto simp: zOr_def zOptional_def zString_def url_check_def zLiteral_def)

lemma stringify_spread: "JSON_stringify (spread (Some (JObj kvs))) = JObj kvs"
  by (simp add: JSON_stringify_def spread_def defined_props_Some)

lemma draft_props:
  "obj_get ''workflowTag'' (draft f sa wv) = Some (JStr (form_workflowTag f))"
  "obj_get ''recipients'' (draft f sa wv) = Some (JStr (form_recipients f))"
  "obj_get ''message'' (draft f sa wv) = Some (JStr (form_message f))"
  "obj_get ''mediaUrl'' (draft f sa wv) = Some (JStr (form_mediaUrl f))"
  "obj_get ''workflowVars'' (draft f sa wv) = wv"
  "obj_get ''sendAt'' (draft f sa wv) = map_option JStr sa"
  by (cases sa; cases wv; simp add: draft_def obj_get_def)+

lemma payload_accepts:
  assumes "obj_get ''workflowTag'' body = Some (JStr t)" "js_trim t \<noteq> []"
    and "obj_get ''recipients'' body = Some (JStr r)" "js_trim r \<noteq> []"
    and "obj_get ''message'' body = Some (JStr m)" "js_trim m \<noteq> []"
    and "obj_get ''mediaUrl'' body = Some (JStr u)" "u = [] \<or> url_parse L u \<noteq> None"
    and "obj_get ''workflowVars'' body = wv"
    and "case wv of None \<Rightarrow> True | Some w \<Rightarrow> is_string_record w"
    and "obj_get ''sendAt'' body = map_option JStr sa"
    and "case sa of None \<Rightarrow> True | Some s \<Rightarrow> s = [] \<or> \<not> date_nan L s"
  shows "safeParse (payloadSchema L) (Some body) =
     Inr (Some (JObj
       ([(''workflowTag'', JStr (js_trim t)),
         (''recipients'', split_recipients (js_trim r)),
         (''message'', JStr (js_trim m)),
         (''mediaUrl'', JStr (case url_parse L u of None \<Rightarrow> [] | Some u' \<Rightarrow> u'))]
        @ optional_prop ''workflowVars'' (map_option without_proto wv)
        @ optional_prop ''sendAt'' (map_option JStr sa))))"
proof -
  from assms(1) obtain kvs where b: "body = JObj kvs"
    by (cases body) (simp_all add: obj_get_def)
  have l: "map_of kvs ''workflowTag'' = Some (JStr t)"
    "map_of kvs ''recipients'' = Some (JStr r)"
    "map_of kvs ''message'' = Some (JStr m)"
    "map_of kvs ''mediaUrl'' = Some (JStr u)"
    "map_of kvs ''workflowVars'' = wv"
    "map_of kvs ''sendAt'' = map_option JStr sa"
    using assms b by (simp_all add: obj_get_def)
  show ?thesis
    unfolding b safeParse_def payloadSchema_def payload_shape_def zObject_def
    by (simp add: l tag_field [OF assms(2)] tag_field [OF assms(6)]
        recipients_text_field [OF assms(4)] mediaUrl_text_field [OF assms(8)]
        vars_field [OF assms(10)] sendAt_field [OF assms(12)] optional_prop_def
        split: option.splits)
qed

lemma split_recipients_blank: "split_recipients [] = JArr []"
  by (simp add: split_recipients_def js_split_def)

lemma handleSubmit_accepts:
  assumes "js_trim (form_workflowTag f) \<noteq> []"
    and "split_recipients (js_trim (form_recipients f)) = JArr (map JStr rs)" "rs \<noteq> []"
    and "js_trim (form_message f) \<noteq> []"
    and "form_mediaUrl f = [] \<or> url_parse L (form_mediaUrl f) \<noteq> None"
    and "tryParseWorkflowVars L (form_workflowVars f) = Inr vars"
    and "case normalizeDateField L (form_sendAt f) of None \<Rightarrow> True | Some s \<Rightarrow> s = [] \<or> \<not> date_nan L s"
  shows "handleSubmit L f =
     Inr (JObj
       ([(''workflowTag'', JStr (js_trim (form_workflowTag f))),
         (''recipients'', JArr (map JStr rs)),
         (''message'', JStr (js_trim (form_message f))),
         (''mediaUrl'', JStr (case url_parse L (form_mediaUrl f) of None \<Rightarrow> [] | Some u' \<Rightarrow> u'))]
        @ optional_prop ''workflowVars'' vars
        @ optional_prop ''sendAt'' (map_option JStr (normalizeDateField L (form_sendAt f)))))"
proof -
  have r: "js_trim (form_recipients f) \<noteq> []"
    using assms(2,3) by (auto simp: split_recipients_blank)
  note v = tryParse_record [OF assms(6)]
  show ?thesis
    using assms(2,6) v
      payload_accepts [OF draft_props(1) assms(1) draft_props(2) r draft_props(3) assms(4)
        draft_props(4) assms(5) draft_props(5) v [THEN conjunct1] draft_props(6) assms(7)]
    by (simp add: handleSubmit_def stringify_spread)
qed

lemma spaced_trims:
  "js_trim '' promo '' = ''promo''" "js_trim ''hi '' = ''hi''"
  "js_trim '' 15551234567'' = ''15551234567''" "js_trim ''447700900123 '' = ''447700900123''"
  "js_trim '' 15551234567,,447700900123\<newline>\<newline>4915112345678 ,\<newline>'' =
     ''15551234567,,447700900123\<newline>\<newline>4915112345678 ,''"
  by (simp_all add: js_trim_def is_js_space_def)

lemma spaced_split:
  "split_recipients ''15551234567,,447700900123\<newline>\<newline>4915112345678 ,'' =
     JArr [JStr ''15551234567'', JStr ''447700900123'', JStr ''4915112345678'']"
  by (simp add: split_recipients_def js_split_def is_sep_def js_trim_def is_js_space_def)

text \<open>
  C9, as the code has it. Server-facing: a body whose \<^verbatim>\<open>workflowTag\<close> and
  \<^verbatim>\<open>message\<close> are strings that are not empty once trimmed, whose
  \<^verbatim>\<open>recipients\<close> are one or more strings that match the pattern once trimmed,
  whose \<^verbatim>\<open>mediaUrl\<close> is absent or passes the URL check, whose
  \<^verbatim>\<open>workflowVars\<close> are absent or an object with strings for values and whose
  \<^verbatim>\<open>sendAt\<close> is absent, empty or a date, is accepted; the data are the tag, the
  recipients and the message trimmed, the URL as the check passes it on, the variables
  without an own key \<^verbatim>\<open>__proto__\<close>, and \<^verbatim>\<open>sendAt\<close> as it came.
  Client-facing: a form whose tag and message are not empty once trimmed, whose
  recipients, once trimmed and split, are one or more pieces that match the pattern,
  whose URL is empty or passes the check, whose variables are accepted and whose date,
  once normalized, is a date, is accepted; the body has the tag and the message trimmed,
  the pieces of the recipients, the URL as the check passes it on or the empty string,
  the variables and the date.
\<close>

theorem validation_succeeds_trimmed:
  "(obj_get ''workflowTag'' body = Some (JStr t) \<and> js_trim t \<noteq> []
      \<and> obj_get ''recipients'' body = Some (JArr (map JStr rs)) \<and> rs \<noteq> []
      \<and> list_all (\<lambda>r. recipient_pattern (js_trim r)) rs
      \<and> obj_get ''message'' body = Some (JStr m) \<and> js_trim m \<noteq> []
      \<and> obj_get ''mediaUrl'' body = map_option JStr mu
      \<and> (mu \<noteq> None \<longrightarrow> Option.bind mu (url_parse L) \<noteq> None)
      \<and> obj_get ''workflowVars'' body = wv
      \<and> (case wv of None \<Rightarrow> True | Some w \<Rightarrow> is_string_record w)
      \<and> obj_get ''sendAt'' body = map_option JStr sa
      \<and> (case sa of None \<Rightarrow> True | Some s \<Rightarrow> s = [] \<or> \<not> date_nan L s)
    \<longrightarrow> safeParse (inboundSchema L) (Some body) =
          Inr (Some (JObj
            ([(''workflowTag'', JStr (js_trim t)),
              (''recipients'', JArr (map (\<lambda>r. JStr (js_trim r)) rs)),
              (''message'', JStr (js_trim m))]
             @ optional_prop ''mediaUrl'' (map_option JStr (Option.bind mu (url_parse L)))
             @ optional_prop ''workflowVars'' (map_option without_proto wv)
             @ optional_prop ''sendAt'' (map_option JStr sa)))))
   \<and> (js_trim (form_workflowTag f) \<noteq> []
      \<and> split_recipients (js_trim (form_recipients f)) = JArr (map JStr pieces) \<and> pieces \<noteq> []
      \<and> list_all recipient_pattern pieces
      \<and> js_trim (form_message f) \<noteq> []
      \<and> (form_mediaUrl f = [] \<or> url_parse L (form_mediaUrl f) \<noteq> None)
      \<and> tryParseWorkflowVars L (form_workflowVars f) = Inr vars
      \<and> (case normalizeDateField L (form_sendAt f) of
            None \<Rightarrow> True | Some s \<Rightarrow> s = [] \<or> \<not> date_nan L s)
    \<longrightarrow> handleSubmit L f =
          Inr (JObj
            ([(''workflowTag'', JStr (js_trim (form_workflowTag f))),
              (''recipients'', JArr (map JStr pieces)),
              (''message'', JStr (js_trim (form_message f))),
              (''mediaUrl'', JStr (case url_parse L (form_mediaUrl f) of None \<Rightarrow> [] | Some u' \<Rightarrow> u'))]
             @ optional_prop ''workflowVars'' vars
             @ optional_prop ''sendAt'' (map_option JStr (normalizeDateField L (form_sendAt f))))))"
proof (rule conjI)
  show "obj_get ''workflowTag'' body = Some (JStr t) \<and> js_trim t \<noteq> []
      \<and> obj_get ''recipients'' body = Some (JArr (map JStr rs)) \<and> rs \<noteq> []
      \<and> list_all (\<lambda>r. recipient_pattern (js_trim r)) rs
      \<and> obj_get ''message'' body = Some (JStr m) \<and> js_trim m \<noteq> []
      \<and> obj_get ''mediaUrl'' body = map_option JStr mu
      \<and> (mu \<noteq> None \<longrightarrow> Option.bind mu (url_parse L) \<noteq> None)
      \<and> obj_get ''workflowVars'' body = wv
      \<and> (case wv of None \<Rightarrow> True | Some w \<Rightarrow> is_string_record w)
      \<and> obj_get ''sendAt'' body = map_option JStr sa
      \<and> (case sa of None \<Rightarrow> True | Some s \<Rightarrow> s = [] \<or> \<not> date_nan L s)
    \<longrightarrow> safeParse (inboundSchema L) (Some body) =
          Inr (Some (JObj
            ([(''workflowTag'', JStr (js_trim t)),
              (''recipients'', JArr (map (\<lambda>r. JStr (js_trim r)) rs)),
              (''message'', JStr (js_trim m))]
             @ optional_prop ''mediaUrl'' (map_option JStr (Option.bind mu (url_parse L)))
             @ optional_prop ''workflowVars'' (map_option without_proto wv)
             @ optional_prop ''sendAt'' (map_option JStr sa))))"
    using inbound_accepts [of body t rs m mu L wv sa] by blast
next
  show "js_trim (form_workflowTag f) \<noteq> []
      \<and> split_recipients (js_trim (form_recipients f)) = JArr (map JStr pieces) \<and> pieces \<noteq> []
      \<and> list_all recipient_pattern pieces
      \<and> js_trim (form_message f) \<noteq> []
      \<and> (form_mediaUrl f = [] \<or> url_parse L (form_mediaUrl f) \<noteq> None)
      \<and> tryParseWorkflowVars L (form_workflowVars f) = Inr vars
      \<and> (case normalizeDateField L (form_sendAt f) of
            None \<Rightarrow> True | Some s \<Rightarrow> s = [] \<or> \<not> date_nan L s)
    \<longrightarrow> handleSubmit L f =
          Inr (JObj
            ([(''workflowTag'', JStr (js_trim (form_workflowTag f))),
              (''recipients'', JArr (map JStr pieces)),
              (''message'', JStr (js_trim (form_message f))),
              (''mediaUrl'', JStr (case url_parse L (form_mediaUrl f) of None \<Rightarrow> [] | Some u' \<Rightarrow> u'))]
             @ optional_prop ''workflowVars'' vars
             @ optional_prop ''sendAt'' (map_option JStr (normalizeDateField L (form_sendAt f)))))"
    using handleSubmit_accepts [where f = f and L = L and rs = pieces and vars = vars]
    by blast
qed

theorem validation_succeeds_trimmed_witness:
  "safeParse (inboundSchema sample_lib) (Some body_spaced) =
     Inr (Some (JObj [(''workflowTag'', JStr ''promo''),
                      (''recipients'', JArr [JStr ''15551234567'', JStr ''447700900123'']),
                      (''message'', JStr ''hi''),
                      (''mediaUrl'', JStr ''https://example.com/catalog.pdf''),
                      (''workflowVars'', JObj [(''source'', JStr ''web-portal'')]),
                      (''sendAt'', JStr ''2024-01-01T12:00:00.000Z'')]))
   \<and> handleSubmit sample_lib form_spaced =
     Inr (JObj [(''workflowTag'', JStr ''promo''),
                (''recipients'',
                   JArr [JStr ''15551234567'', JStr ''447700900123'', JStr ''4915112345678'']),
                (''message'', JStr ''hi''),
                (''mediaUrl'', JStr []),
                (''sendAt'', JStr ''2024-01-01T12:00:00Z'')])"
proof -
  have p: "recipient_pattern ''15551234567''" "recipient_pattern ''447700900123''"
    "recipient_pattern ''4915112345678''"
    by (simp_all add: recipient_pattern_def is_digit_def)
  have s: "url_parse sample_lib ''https://example.com/catalog.pdf'' = Some ''https://example.com/catalog.pdf''"
    "url_parse sample_lib [] = None"
    "\<not> date_nan sample_lib ''2024-01-01T12:00:00.000Z''"
    "\<not> date_nan sample_lib ''2024-01-01T12:00:00Z''"
    "normalizeDateField sample_lib ''2024-01-01T12:00:00.000Z'' = Some ''2024-01-01T12:00:00Z''"
    "tryParseWorkflowVars sample_lib [] = Inr None"
    by (simp_all add: sample_lib_def normalizeDateField_def tryParseWorkflowVars_def)
  have 1: "safeParse (inboundSchema sample_lib) (Some body_spaced) =
     Inr (Some (JObj [(''workflowTag'', JStr ''promo''),
                      (''recipients'', JArr [JStr ''15551234567'', JStr ''447700900123'']),
                      (''message'', JStr ''hi''),
                      (''mediaUrl'', JStr ''https://example.com/catalog.pdf''),
                      (''workflowVars'', JObj [(''source'', JStr ''web-portal'')]),
                      (''sendAt'', JStr ''2024-01-01T12:00:00.000Z'')]))"
    using validation_succeeds_trimmed [where body = body_spaced
        and t = "'' promo ''" and rs = "['' 15551234567'', ''447700900123 '']" and m = "''hi ''"
        and mu = "Some ''https://example.com/catalog.pdf''" and L = sample_lib
        and wv = "Some (JObj [(''source'', JStr ''web-portal'')])"
        and sa = "Some ''2024-01-01T12:00:00.000Z''", THEN conjunct1]
      p s
    by (simp add: body_spaced_def obj_get_def spaced_trims optional_prop_def without_proto_def)
  have 2: "handleSubmit sample_lib form_spaced =
     Inr (JObj [(''workflowTag'', JStr ''promo''),
                (''recipients'',
                   JArr [JStr ''15551234567'', JStr ''447700900123'', JStr ''4915112345678'']),
                (''message'', JStr ''hi''),
                (''mediaUrl'', JStr []),
                (''sendAt'', JStr ''2024-01-01T12:00:00Z'')])"
    using validation_succeeds_trimmed [where f = form_spaced
        and pieces = "[''15551234567'', ''447700900123'', ''4915112345678'']"
        and L = sample_lib and vars = None,
        THEN conjunct2]
      p s
    by (simp add: form_spaced_def spaced_trims spaced_split optional_prop_def)
  from 1 2 show ?thesis by simp
qed

text \<open>
  C9 as stated fails: with one recipient that matches and a tag and a message that are
  not empty, a \<^verbatim>\<open>sendAt\<close> that is no date is refused, and so is one that
  is a single space, which trimming would have made empty and acceptable; so are a URL
  that is none and variables with a number for a value; and with no recipient at all,
  every one of which matches, the body is refused as well.
\<close>

theorem trimmed_payload_counterexample:
  "list_all recipient_pattern [''15551234567''] \<and> js_trim ''promo'' \<noteq> [] \<and> js_trim ''hi'' \<noteq> []
   \<and> safeParse (inboundSchema sample_lib) (Some (body_bad_date ''not a date'')) =
       Inl [Issue [Key ''sendAt''] ''sendAt must be a valid ISO 8601 date string'']
   \<and> safeParse (inboundSchema sample_lib) (Some (body_bad_date '' '')) =
       Inl [Issue [Key ''sendAt''] ''sendAt must be a valid ISO 8601 date string'']
   \<and> safeParse (inboundSchema sample_lib) (Some body_bad_url) =
       Inl [Issue [Key ''mediaUrl''] ''Invalid URL'']
   \<and> safeParse (inboundSchema sample_lib) (Some body_vars_number) =
       Inl [Issue [Key ''workflowVars'', Key ''a''] ''Invalid input: expected string'']
   \<and> list_all recipient_pattern []
   \<and> safeParse (inboundSchema sample_lib) (Some body_no_recipients) =
       Inl [Issue [Key ''recipients''] ''Provide at least one recipient'']"
  by (simp add: schema_defs body_bad_date_def body_bad_url_def body_vars_number_def
      body_no_recipients_def eval_defs sample_lib_def)

end
